theory Spec2Isabelle
  imports
    Main
    "HOL-Library.Word"
    "HOL-Library.Signed_Division"
    "HOL-Library.Monad_Syntax"
begin

section \<open>Network parameters and their registry (chaincfg/params.go)\<close>

text \<open>
  The package keeps one parameter record per network, three pure functions that compute
  the dampening band of the difficulty averaging window, and five package-level lookup
  tables filled by \<open>Register\<close>. The tables are package variables in the source; here they
  are the fields of a record that every operation takes and, where it writes, returns. The
  \<open>Params\<close> variables that \<open>Register\<close> is given pointers to live in a store.
\<close>

subsection \<open>Machine types\<close>

type_synonym byte = "8 word"

text \<open>
  \<open>time.Duration\<close> is a signed 64-bit count of nanoseconds. Go's \<open>int\<close> is taken at its
  width on 64-bit targets. Addition, subtraction and multiplication wrap around.
\<close>

type_synonym Duration = "64 word"

definition Nanosecond :: Duration where
  "Nanosecond = 1"

definition Microsecond :: Duration where
  "Microsecond = 1000 * Nanosecond"

definition Millisecond :: Duration where
  "Millisecond = 1000 * Microsecond"

definition Second :: Duration where
  "Second = 1000 * Millisecond"

definition Minute :: Duration where
  "Minute = 60 * Second"

definition Hour :: Duration where
  "Hour = 60 * Minute"

text \<open>
  The quotient \<open>a / b\<close> of two signed 64-bit integers truncates towards zero. The only
  divisor in the functions below is the constant 100, so the run-time panic of a zero
  divisor does not arise.
\<close>

definition quo :: "64 word \<Rightarrow> 64 word \<Rightarrow> 64 word" where
  "quo a b = word_of_int (sint a sdiv sint b)"

text \<open>A \<open>[4]byte\<close> array, the slice \<open>a[:]\<close> of one, and \<open>copy(key[:], id)\<close> into a zeroed one.\<close>

type_synonym byte4 = "byte \<times> byte \<times> byte \<times> byte"

fun slice4 :: "byte4 \<Rightarrow> byte list" where
  "slice4 (a, b, c, d) = [a, b, c, d]"

definition byte_at :: "byte list \<Rightarrow> nat \<Rightarrow> byte" where
  "byte_at src i = (if i < length src then src ! i else 0)"

definition copy4 :: "byte list \<Rightarrow> byte4" where
  "copy4 src = (byte_at src 0, byte_at src 1, byte_at src 2, byte_at src 3)"

subsection \<open>Params\<close>

record Checkpoint =
  Height :: "32 word"
  Hash :: "byte list"

text \<open>
  The record follows the struct field by field. \<open>Net\<close> has the type \<open>wire.BitcoinNet\<close> of
  another package; it is only ever used as a map key, so it is a type parameter here.
  \<open>GenesisBlock\<close> and \<open>GenesisHash\<close> point to values declared in another file of the
  package and are read by none of the functions below; they are left out.
\<close>

record 'net Params =
  Name :: string
  Net :: 'net
  DefaultPort :: string
  DNSSeeds :: "string list"
  InitialValidatorPubKeys :: "byte list list"
  PowLimit :: int
  PowLimitBits :: "32 word"
  CoinbaseMaturity :: "16 word"
  SubsidyReductionInterval :: "32 word"
  TargetTimespan :: Duration
  TargetTimePerBlock :: Duration
  ReduceMinDifficulty :: bool
  MinDiffReductionTime :: Duration
  GenerateSupported :: bool
  Checkpoints :: "Checkpoint list"
  BlockEnforceNumRequired :: "64 word"
  BlockRejectNumRequired :: "64 word"
  BlockUpgradeNumToCheck :: "64 word"
  RelayNonStdTxs :: bool
  PubKeyHashAddrID :: byte
  ScriptHashAddrID :: byte
  AztecAddrID :: byte
  PrivateKeyID :: byte
  HDPrivateKeyID :: byte4
  HDPublicKeyID :: byte4
  HDCoinType :: "32 word"
  PowAveragingWindow :: "64 word"
  PowMaxAdjustDown :: "64 word"
  PowMaxAdjustUp :: "64 word"
  ChainTrailingSigKeyIdLimit :: "64 word"
  ChainWindowShareLimit :: "64 word"

subsection \<open>The dampening band\<close>

definition AveragingWindowTimespan :: "'net Params \<Rightarrow> Duration" where
  "AveragingWindowTimespan p = PowAveragingWindow p * TargetTimePerBlock p"

definition MaxActualTimespan :: "'net Params \<Rightarrow> Duration" where
  "MaxActualTimespan p =
     (let dampenPercentage = 100 + PowMaxAdjustDown p
      in quo (AveragingWindowTimespan p * dampenPercentage) 100)"

definition MinActualTimespan :: "'net Params \<Rightarrow> Duration" where
  "MinActualTimespan p =
     (let dampenPercentage = 100 - PowMaxAdjustUp p
      in quo (AveragingWindowTimespan p * dampenPercentage) 100)"

text \<open>
  The other order of the two operations, dividing by 100 before multiplying. The source
  does not compute it; it is here to be compared with \<open>MaxActualTimespan\<close>.
\<close>

definition divide_first_max :: "'net Params \<Rightarrow> Duration" where
  "divide_first_max p = quo (AveragingWindowTimespan p) 100 * (100 + PowMaxAdjustDown p)"

subsection \<open>The built-in networks\<close>

definition mainPowLimit :: int where
  "mainPowLimit = 2 ^ 243 - 1"

definition regressionPowLimit :: int where
  "regressionPowLimit = 0x0f0f0f0f0f0f0f0f0f0f0f0f0f0f0f0f0f0f0f0f0f0f0f0f0f0f0f0f0f0f0f0f"

definition testNet3PowLimit :: int where
  "testNet3PowLimit = 0x07ffffffffffffffffffffffffffffffffffffffffffffffffffffffffffffff"

definition simNetPowLimit :: int where
  "simNetPowLimit = 2 ^ 255 - 1"

text \<open>The four literals of \<open>InitialValidatorPubKeys\<close> in the source are the same four keys.\<close>

definition builtinValidatorPubKeys :: "byte list list" where
  "builtinValidatorPubKeys =
    [[0x03, 0x5f, 0x51, 0x03, 0x85, 0x2b, 0xd7, 0xd9,
      0xc9, 0xc2, 0x8e, 0x44, 0xca, 0xf1, 0xf7, 0x18,
      0x89, 0x41, 0xe1, 0x62, 0x95, 0x06, 0x2c, 0xa4,
      0xc8, 0x99, 0x28, 0xa8, 0xcc, 0xff, 0x99, 0x3c, 0xd3],
     [0x02, 0x65, 0xde, 0x49, 0x39, 0x9e, 0x78, 0x02,
      0x00, 0x26, 0x21, 0x94, 0x92, 0xe2, 0xa6, 0xe1,
      0xa4, 0x1e, 0x93, 0x59, 0x1b, 0x87, 0x22, 0x0a,
      0xe8, 0xa2, 0xf3, 0xeb, 0xf3, 0x47, 0x3d, 0xbe, 0xef],
     [0x03, 0x9c, 0xb9, 0x4c, 0x99, 0xc4, 0x70, 0x09,
      0x18, 0x25, 0x0c, 0x40, 0xfa, 0x35, 0xb7, 0xfa,
      0x0a, 0x75, 0xa9, 0x67, 0xc9, 0x36, 0x6a, 0xa1,
      0x9b, 0x8f, 0xc3, 0x54, 0x37, 0x33, 0x68, 0xbe, 0xef],
     [0x03, 0x13, 0x37, 0xab, 0x09, 0x07, 0x02, 0x54,
      0x63, 0x80, 0x75, 0xc7, 0xb5, 0x96, 0x43, 0xdc,
      0xe2, 0xd6, 0x0c, 0x52, 0x60, 0xbf, 0x58, 0x41,
      0xd2, 0xf8, 0xcc, 0x6f, 0x75, 0xf6, 0x79, 0x0d, 0x4e]]"

text \<open>
  The constants \<open>wire.MainNet\<close>, \<open>wire.TestNet\<close>, \<open>wire.TestNet3\<close> and \<open>wire.SimNet\<close> belong
  to the wire package. Each built-in record takes its magic as an argument. A field that
  a literal of the source does not set has Go's zero value.
\<close>

definition MainNetParams :: "'net \<Rightarrow> 'net Params" where
  "MainNetParams mainNet = \<lparr>
     Name = ''mainnet'',
     Net = mainNet,
     DefaultPort = ''7979'',
     DNSSeeds = [],
     InitialValidatorPubKeys = builtinValidatorPubKeys,
     PowLimit = mainPowLimit,
     PowLimitBits = 0x1f07ffff,
     CoinbaseMaturity = 100,
     SubsidyReductionInterval = 210000,
     TargetTimespan = Hour * 24 * 14,
     TargetTimePerBlock = Minute,
     ReduceMinDifficulty = False,
     MinDiffReductionTime = 0,
     GenerateSupported = False,
     Checkpoints = [],
     BlockEnforceNumRequired = 750,
     BlockRejectNumRequired = 950,
     BlockUpgradeNumToCheck = 1000,
     RelayNonStdTxs = False,
     PubKeyHashAddrID = 0x00,
     ScriptHashAddrID = 0x05,
     AztecAddrID = 0x33,
     PrivateKeyID = 0x80,
     HDPrivateKeyID = (0x04, 0x88, 0xad, 0xe4),
     HDPublicKeyID = (0x04, 0x88, 0xb2, 0x1e),
     HDCoinType = 0,
     PowAveragingWindow = 17,
     PowMaxAdjustDown = 32,
     PowMaxAdjustUp = 16,
     ChainTrailingSigKeyIdLimit = 2,
     ChainWindowShareLimit = 25 \<rparr>"

definition RegressionNetParams :: "'net \<Rightarrow> 'net Params" where
  "RegressionNetParams testNet = \<lparr>
     Name = ''regtest'',
     Net = testNet,
     DefaultPort = ''18444'',
     DNSSeeds = [],
     InitialValidatorPubKeys = builtinValidatorPubKeys,
     PowLimit = regressionPowLimit,
     PowLimitBits = 0x200f0f0f,
     CoinbaseMaturity = 100,
     SubsidyReductionInterval = 150,
     TargetTimespan = Hour * 24 * 14,
     TargetTimePerBlock = Minute,
     ReduceMinDifficulty = True,
     MinDiffReductionTime = Minute * 20,
     GenerateSupported = True,
     Checkpoints = [],
     BlockEnforceNumRequired = 750,
     BlockRejectNumRequired = 950,
     BlockUpgradeNumToCheck = 1000,
     RelayNonStdTxs = True,
     PubKeyHashAddrID = 0x6f,
     ScriptHashAddrID = 0xc4,
     AztecAddrID = 0x58,
     PrivateKeyID = 0xef,
     HDPrivateKeyID = (0x04, 0x35, 0x83, 0x94),
     HDPublicKeyID = (0x04, 0x35, 0x87, 0xcf),
     HDCoinType = 1,
     PowAveragingWindow = 17,
     PowMaxAdjustDown = 32,
     PowMaxAdjustUp = 16,
     ChainTrailingSigKeyIdLimit = 0,
     ChainWindowShareLimit = 0 \<rparr>"

definition TestNet3Params :: "'net \<Rightarrow> 'net Params" where
  "TestNet3Params testNet3 = \<lparr>
     Name = ''testnet3'',
     Net = testNet3,
     DefaultPort = ''17979'',
     DNSSeeds = [],
     InitialValidatorPubKeys = builtinValidatorPubKeys,
     PowLimit = testNet3PowLimit,
     PowLimitBits = 0x2007ffff,
     CoinbaseMaturity = 100,
     SubsidyReductionInterval = 210000,
     TargetTimespan = Hour * 24 * 14,
     TargetTimePerBlock = Minute,
     ReduceMinDifficulty = True,
     MinDiffReductionTime = Minute * 20,
     GenerateSupported = False,
     Checkpoints = [],
     BlockEnforceNumRequired = 51,
     BlockRejectNumRequired = 75,
     BlockUpgradeNumToCheck = 100,
     RelayNonStdTxs = True,
     PubKeyHashAddrID = 0x6f,
     ScriptHashAddrID = 0xc4,
     AztecAddrID = 0x58,
     PrivateKeyID = 0xef,
     HDPrivateKeyID = (0x04, 0x35, 0x83, 0x94),
     HDPublicKeyID = (0x04, 0x35, 0x87, 0xcf),
     HDCoinType = 1,
     PowAveragingWindow = 17,
     PowMaxAdjustDown = 64,
     PowMaxAdjustUp = 64,
     ChainTrailingSigKeyIdLimit = 45,
     ChainWindowShareLimit = 50 \<rparr>"

definition SimNetParams :: "'net \<Rightarrow> 'net Params" where
  "SimNetParams simNet = \<lparr>
     Name = ''simnet'',
     Net = simNet,
     DefaultPort = ''18555'',
     DNSSeeds = [],
     InitialValidatorPubKeys = builtinValidatorPubKeys,
     PowLimit = simNetPowLimit,
     PowLimitBits = 0x207fffff,
     CoinbaseMaturity = 100,
     SubsidyReductionInterval = 210000,
     TargetTimespan = Hour * 24 * 14,
     TargetTimePerBlock = Minute,
     ReduceMinDifficulty = True,
     MinDiffReductionTime = Minute * 20,
     GenerateSupported = True,
     Checkpoints = [],
     BlockEnforceNumRequired = 51,
     BlockRejectNumRequired = 75,
     BlockUpgradeNumToCheck = 100,
     RelayNonStdTxs = True,
     PubKeyHashAddrID = 0x3f,
     ScriptHashAddrID = 0x7b,
     AztecAddrID = 0,
     PrivateKeyID = 0x64,
     HDPrivateKeyID = (0x04, 0x20, 0xb9, 0x00),
     HDPublicKeyID = (0x04, 0x20, 0xbd, 0x3a),
     HDCoinType = 115,
     PowAveragingWindow = 17,
     PowMaxAdjustDown = 32,
     PowMaxAdjustUp = 16,
     ChainTrailingSigKeyIdLimit = 2,
     ChainWindowShareLimit = 25 \<rparr>"

subsection \<open>Variables and slices\<close>

text \<open>
  \<open>Register\<close> takes a pointer to a \<open>Params\<close> variable and keeps a slice of that
  variable's \<open>HDPublicKeyID\<close> array, which \<open>HDPrivateKeyToPublicKeyID\<close> later hands out.
  The variables are therefore kept in a store: the four package variables, and the
  variables of callers. A nil pointer is not an address.
\<close>

datatype ptr =
    MainNetParams_ptr
  | TestNet3Params_ptr
  | RegressionNetParams_ptr
  | SimNetParams_ptr
  | Caller_ptr nat

type_synonym 'net store = "ptr \<Rightarrow> 'net Params"

text \<open>
  The store when the package's \<open>init\<close> runs: the four package variables hold their
  literals. Every variable of a caller holds \<open>v\<close> until its owner assigns to it.
\<close>

definition initialStore :: "'net \<Rightarrow> 'net \<Rightarrow> 'net \<Rightarrow> 'net \<Rightarrow> 'net Params \<Rightarrow> 'net store" where
  "initialStore mainNet testNet3 testNet simNet v a =
     (case a of
        MainNetParams_ptr \<Rightarrow> MainNetParams mainNet
      | TestNet3Params_ptr \<Rightarrow> TestNet3Params testNet3
      | RegressionNetParams_ptr \<Rightarrow> RegressionNetParams testNet
      | SimNetParams_ptr \<Rightarrow> SimNetParams simNet
      | Caller_ptr n \<Rightarrow> v)"

text \<open>
  The only byte slices the package stores or returns are the slices
  \<open>params.HDPublicKeyID[:]\<close>: four bytes that share their memory with the variable
  \<open>params\<close> points to. Reading such a slice gives what the variable holds at that moment.
\<close>

datatype slice = HDPublicKeyID_slice ptr

fun readSlice :: "'net store \<Rightarrow> slice \<Rightarrow> byte list" where
  "readSlice h (HDPublicKeyID_slice a) = slice4 (HDPublicKeyID (h a))"

subsection \<open>The registry\<close>

datatype error = ErrDuplicateNet | ErrUnknownHDKeyID

text \<open>
  A \<open>map[K]struct{}\<close> is a set of keys. The keys of \<open>hdPrivToPubKeyIDs\<close> are arrays, stored
  by value; its values are slices.
\<close>

record 'net Registry =
  registeredNets :: "'net set"
  pubKeyHashAddrIDs :: "byte set"
  scriptHashAddrIDs :: "byte set"
  aztecAddrIDs :: "byte set"
  hdPrivToPubKeyIDs :: "byte4 \<rightharpoonup> slice"

definition emptyRegistry :: "'net Registry" where
  "emptyRegistry = \<lparr>
     registeredNets = {},
     pubKeyHashAddrIDs = {},
     scriptHashAddrIDs = {},
     aztecAddrIDs = {},
     hdPrivToPubKeyIDs = Map.empty \<rparr>"

text \<open>
  \<open>Register\<close> reads the variable \<open>params\<close> points to in the store \<open>h\<close>, and returns the
  tables after the call and the error (\<open>None\<close> is \<open>nil\<close>). It does not write to the store.
\<close>

definition Register :: "'net store \<Rightarrow> 'net Registry \<Rightarrow> ptr \<Rightarrow> 'net Registry \<times> error option" where
  "Register h r params =
     (if Net (h params) \<in> registeredNets r then (r, Some ErrDuplicateNet)
      else
        let r1 = r\<lparr>registeredNets := insert (Net (h params)) (registeredNets r)\<rparr>;
            r2 = r1\<lparr>pubKeyHashAddrIDs :=
                       insert (PubKeyHashAddrID (h params)) (pubKeyHashAddrIDs r1)\<rparr>;
            r3 = r2\<lparr>scriptHashAddrIDs :=
                       insert (ScriptHashAddrID (h params)) (scriptHashAddrIDs r2)\<rparr>;
            r4 = (if AztecAddrID (h params) \<noteq> 0
                  then r3\<lparr>aztecAddrIDs := insert (AztecAddrID (h params)) (aztecAddrIDs r3)\<rparr>
                  else r3);
            r5 = r4\<lparr>hdPrivToPubKeyIDs :=
                       (hdPrivToPubKeyIDs r4)(HDPrivateKeyID (h params) \<mapsto> HDPublicKeyID_slice params)\<rparr>
        in (r5, None))"

text \<open>\<open>mustRegister\<close> panics on an error: \<open>None\<close> is the panic.\<close>

definition mustRegister :: "'net store \<Rightarrow> 'net Registry \<Rightarrow> ptr \<Rightarrow> 'net Registry option" where
  "mustRegister h r params =
     (case Register h r params of
        (r', None) \<Rightarrow> Some r'
      | (r', Some err) \<Rightarrow> None)"

definition IsPubKeyHashAddrID :: "'net Registry \<Rightarrow> byte \<Rightarrow> bool" where
  "IsPubKeyHashAddrID r ident \<longleftrightarrow> ident \<in> pubKeyHashAddrIDs r"

definition IsScriptHashAddrID :: "'net Registry \<Rightarrow> byte \<Rightarrow> bool" where
  "IsScriptHashAddrID r ident \<longleftrightarrow> ident \<in> scriptHashAddrIDs r"

definition IsAztecAddrID :: "'net Registry \<Rightarrow> byte \<Rightarrow> bool" where
  "IsAztecAddrID r ident \<longleftrightarrow> ident \<in> aztecAddrIDs r"

text \<open>
  The argument of \<open>HDPrivateKeyToPublicKeyID\<close> is only read, during the call: it is the
  list of its bytes. The result is the stored slice itself, not a copy of its bytes.
\<close>

definition HDPrivateKeyToPublicKeyID :: "'net Registry \<Rightarrow> byte list \<Rightarrow> error + slice" where
  "HDPrivateKeyToPublicKeyID r ident =
     (if length ident \<noteq> 4 then Inl ErrUnknownHDKeyID
      else
        let key = copy4 ident
        in case hdPrivToPubKeyIDs r key of
             None \<Rightarrow> Inl ErrUnknownHDKeyID
           | Some pubBytes \<Rightarrow> Inr pubBytes)"

text \<open>
  The package's \<open>init\<close>: the addresses of the four package variables, in the source's
  order, into the empty tables. \<open>None\<close> is the panic of \<open>mustRegister\<close>.
\<close>

definition init :: "'net store \<Rightarrow> 'net Registry option" where
  "init h = do {
     r1 \<leftarrow> mustRegister h emptyRegistry MainNetParams_ptr;
     r2 \<leftarrow> mustRegister h r1 TestNet3Params_ptr;
     r3 \<leftarrow> mustRegister h r2 RegressionNetParams_ptr;
     mustRegister h r3 SimNetParams_ptr
   }"

subsection \<open>Callers\<close>

text \<open>A caller that looks a private magic up and reads the bytes of the slice it gets.\<close>

definition lookupAndRead :: "'net store \<Rightarrow> 'net Registry \<Rightarrow> byte list \<Rightarrow> error + byte list" where
  "lookupAndRead h r ident =
     (case HDPrivateKeyToPublicKeyID r ident of
        Inl err \<Rightarrow> Inl err
      | Inr pubBytes \<Rightarrow> Inr (readSlice h pubBytes))"

text \<open>
  What a program can do with the package: call one of its five exported functions, or
  assign to one of its \<open>Params\<close> variables. An assignment stands for every write to the
  variable, also one through a slice that a lookup returned. The four lookups only read
  the tables, \<open>Register\<close> only reads the store, and an assignment only writes the store.
\<close>

datatype 'net call =
    CallRegister ptr
  | CallIsPubKeyHashAddrID byte
  | CallIsScriptHashAddrID byte
  | CallIsAztecAddrID byte
  | CallHDPrivateKeyToPublicKeyID "byte list"
  | Assign ptr "'net Params"

datatype answer =
    AnsError "error option"
  | AnsBool bool
  | AnsSlice "error + slice"
  | AnsNothing

fun step :: "'net store \<times> 'net Registry \<Rightarrow> 'net call \<Rightarrow> ('net store \<times> 'net Registry) \<times> answer" where
  "step (h, r) (CallRegister a) = (case Register h r a of (r', e) \<Rightarrow> ((h, r'), AnsError e))"
| "step (h, r) (CallIsPubKeyHashAddrID b) = ((h, r), AnsBool (IsPubKeyHashAddrID r b))"
| "step (h, r) (CallIsScriptHashAddrID b) = ((h, r), AnsBool (IsScriptHashAddrID r b))"
| "step (h, r) (CallIsAztecAddrID b) = ((h, r), AnsBool (IsAztecAddrID r b))"
| "step (h, r) (CallHDPrivateKeyToPublicKeyID bs) =
     ((h, r), AnsSlice (HDPrivateKeyToPublicKeyID r bs))"
| "step (h, r) (Assign a p) = ((h(a := p), r), AnsNothing)"

fun run :: "'net store \<times> 'net Registry \<Rightarrow> 'net call list \<Rightarrow> 'net store \<times> 'net Registry" where
  "run w [] = w"
| "run w (c # cs) = run (fst (step w c)) cs"

text \<open>
  The registrations of a run that returned \<open>nil\<close>, in the order of the calls: for each,
  the private magic the variable held at the call, and the address of the variable.
\<close>

fun accepted_by :: "'net store \<times> 'net Registry \<Rightarrow> 'net call \<Rightarrow> (byte4 \<times> ptr) list" where
  "accepted_by (h, r) (CallRegister a) =
     (if snd (Register h r a) = None then [(HDPrivateKeyID (h a), a)] else [])"
| "accepted_by w c = []"

fun accepted :: "'net store \<times> 'net Registry \<Rightarrow> 'net call list \<Rightarrow> (byte4 \<times> ptr) list" where
  "accepted w [] = []"
| "accepted w (c # cs) = accepted_by w c @ accepted (fst (step w c)) cs"

fun is_Assign :: "'net call \<Rightarrow> bool" where
  "is_Assign (Assign a p) = True"
| "is_Assign c = False"

text \<open>The values a signed 64-bit integer can hold.\<close>

definition int64_range :: "int \<Rightarrow> bool" where
  "int64_range x \<longleftrightarrow> - (2 ^ 63) \<le> x \<and> x < 2 ^ 63"

section \<open>The registry: results\<close>

subsection \<open>What one call of \<open>Register\<close> does\<close>

lemma Register_dup [simp]:
  "Net (h a) \<in> registeredNets r \<Longrightarrow> Register h r a = (r, Some ErrDuplicateNet)"
  by (simp add: Register_def)

lemma Register_new_snd:
  "Net (h a) \<notin> registeredNets r \<Longrightarrow> snd (Register h r a) = None"
  by (simp add: Register_def Let_def)

lemma Register_new_nets:
  "Net (h a) \<notin> registeredNets r \<Longrightarrow>
   registeredNets (fst (Register h r a)) = insert (Net (h a)) (registeredNets r)"
  by (simp add: Register_def Let_def)

lemma Register_new_pubkey:
  "Net (h a) \<notin> registeredNets r \<Longrightarrow>
   pubKeyHashAddrIDs (fst (Register h r a))
     = insert (PubKeyHashAddrID (h a)) (pubKeyHashAddrIDs r)"
  by (simp add: Register_def Let_def)

lemma Register_new_script:
  "Net (h a) \<notin> registeredNets r \<Longrightarrow>
   scriptHashAddrIDs (fst (Register h r a))
     = insert (ScriptHashAddrID (h a)) (scriptHashAddrIDs r)"
  by (simp add: Register_def Let_def)

lemma Register_new_aztec:
  "Net (h a) \<notin> registeredNets r \<Longrightarrow>
   aztecAddrIDs (fst (Register h r a)) =
     (if AztecAddrID (h a) \<noteq> 0 then insert (AztecAddrID (h a)) (aztecAddrIDs r)
      else aztecAddrIDs r)"
  by (simp add: Register_def Let_def)

lemma Register_new_hd:
  "Net (h a) \<notin> registeredNets r \<Longrightarrow>
   hdPrivToPubKeyIDs (fst (Register h r a)) =
     (hdPrivToPubKeyIDs r)(HDPrivateKeyID (h a) \<mapsto> HDPublicKeyID_slice a)"
  by (simp add: Register_def Let_def)

lemmas Register_new =
  Register_new_snd Register_new_nets Register_new_pubkey Register_new_script
  Register_new_aztec Register_new_hd

lemma copy4_slice4 [simp]: "copy4 (slice4 k) = k"
  by (cases k) (simp add: copy4_def byte_at_def)

lemma length_slice4 [simp]: "length (slice4 k) = 4"
  by (cases k) simp

lemma slice4_copy4: "length bs = 4 \<Longrightarrow> slice4 (copy4 bs) = bs"
proof -
  assume "length bs = 4"
  then obtain a b c d where "bs = [a, b, c, d]"
    by (cases bs; cases "tl bs"; cases "tl (tl bs)"; cases "tl (tl (tl bs))") auto
  then show ?thesis by (simp add: copy4_def byte_at_def)
qed

lemma copy4_list [simp]: "copy4 [a, b, c, d] = (a, b, c, d)"
  by (simp add: copy4_def byte_at_def)

lemma slice4_eq_iff: "length bs = 4 \<Longrightarrow> slice4 k = bs \<longleftrightarrow> k = copy4 bs"
  using slice4_copy4 copy4_slice4 by metis

lemma initialStore_simps [simp]:
  "initialStore m t3 t s v MainNetParams_ptr = MainNetParams m"
  "initialStore m t3 t s v TestNet3Params_ptr = TestNet3Params t3"
  "initialStore m t3 t s v RegressionNetParams_ptr = RegressionNetParams t"
  "initialStore m t3 t s v SimNetParams_ptr = SimNetParams s"
  "initialStore m t3 t s v (Caller_ptr n) = v"
  by (simp_all add: initialStore_def)

lemma Net_builtin [simp]:
  "Net (MainNetParams a) = a" "Net (TestNet3Params a) = a"
  "Net (RegressionNetParams a) = a" "Net (SimNetParams a) = a"
  by (simp_all add: MainNetParams_def TestNet3Params_def RegressionNetParams_def SimNetParams_def)

lemma builtin_ids [simp]:
  "PubKeyHashAddrID (TestNet3Params a) = 0x6f"
  "PubKeyHashAddrID (RegressionNetParams a) = 0x6f"
  "HDPrivateKeyID (MainNetParams a) = (0x04, 0x88, 0xad, 0xe4)"
  "HDPublicKeyID (MainNetParams a) = (0x04, 0x88, 0xb2, 0x1e)"
  "HDPrivateKeyID (TestNet3Params a) = (0x04, 0x35, 0x83, 0x94)"
  "HDPublicKeyID (TestNet3Params a) = (0x04, 0x35, 0x87, 0xcf)"
  "HDPrivateKeyID (RegressionNetParams a) = (0x04, 0x35, 0x83, 0x94)"
  "HDPublicKeyID (RegressionNetParams a) = (0x04, 0x35, 0x87, 0xcf)"
  "HDPrivateKeyID (SimNetParams a) = (0x04, 0x20, 0xb9, 0x00)"
  "HDPublicKeyID (SimNetParams a) = (0x04, 0x20, 0xbd, 0x3a)"
  "AztecAddrID (MainNetParams a) = 0x33"
  by (simp_all add: MainNetParams_def TestNet3Params_def RegressionNetParams_def SimNetParams_def)

lemma registeredNets_empty [simp]: "registeredNets emptyRegistry = {}"
  by (simp add: emptyRegistry_def)

lemma mustRegister_new:
  "Net (h a) \<notin> registeredNets r \<Longrightarrow> mustRegister h r a = Some (fst (Register h r a))"
  by (simp add: mustRegister_def Register_def Let_def)

lemma Register_keeps_aztec_zero:
  "0 \<in> aztecAddrIDs (fst (Register h r a)) \<longleftrightarrow> 0 \<in> aztecAddrIDs r"
  by (simp add: Register_def Let_def)

lemma step_aztec_zero:
  "0 \<in> aztecAddrIDs (snd (fst (step w c))) \<longleftrightarrow> 0 \<in> aztecAddrIDs (snd w)"
  by (cases w; cases c) (simp_all add: split_beta Register_keeps_aztec_zero)

lemma run_aztec_zero:
  "0 \<in> aztecAddrIDs (snd (run w cs)) \<longleftrightarrow> 0 \<in> aztecAddrIDs (snd w)"
  by (induction cs arbitrary: w) (simp_all add: step_aztec_zero)

lemma lookup_after_Register:
  "Net (h a) \<notin> registeredNets r \<Longrightarrow>
   HDPrivateKeyToPublicKeyID (fst (Register h r a)) (slice4 (HDPrivateKeyID (h a)))
     = Inr (HDPublicKeyID_slice a)"
  by (simp add: HDPrivateKeyToPublicKeyID_def Register_new_hd)

lemma fst_step_Register [simp]:
  "fst (step (h, r) (CallRegister a)) = (h, fst (Register h r a))"
  by (simp add: split_beta)

subsection \<open>The package's \<open>init\<close>\<close>

text \<open>
  With four different magics none of the four calls of \<open>mustRegister\<close> panics. The slice
  of the main network's public magic is still in the table at the end: the three later
  records carry other private magics.
\<close>

lemma init_succeeds:
  fixes mainNet :: 'net
  assumes "distinct [mainNet, testNet3, testNet, simNet]"
  shows "\<exists>r. init (initialStore mainNet testNet3 testNet simNet v) = Some r \<and>
             registeredNets r = {mainNet, testNet3, testNet, simNet} \<and>
             hdPrivToPubKeyIDs r (0x04, 0x88, 0xad, 0xe4)
               = Some (HDPublicKeyID_slice MainNetParams_ptr)"
proof -
  define h where "h = initialStore mainNet testNet3 testNet simNet v"
  define r1 where "r1 = fst (Register h emptyRegistry MainNetParams_ptr)"
  define r2 where "r2 = fst (Register h r1 TestNet3Params_ptr)"
  define r3 where "r3 = fst (Register h r2 RegressionNetParams_ptr)"
  define r4 where "r4 = fst (Register h r3 SimNetParams_ptr)"
  have v: "h MainNetParams_ptr = MainNetParams mainNet"
    "h TestNet3Params_ptr = TestNet3Params testNet3"
    "h RegressionNetParams_ptr = RegressionNetParams testNet"
    "h SimNetParams_ptr = SimNetParams simNet"
    by (simp_all add: h_def)
  have f1: "Net (h MainNetParams_ptr) \<notin> registeredNets emptyRegistry"
    by simp
  have n1: "registeredNets r1 = {mainNet}"
    unfolding r1_def by (simp add: Register_new_nets v)
  have m1: "mustRegister h emptyRegistry MainNetParams_ptr = Some r1"
    unfolding r1_def by (simp add: mustRegister_new)
  have h1: "hdPrivToPubKeyIDs r1 (0x04, 0x88, 0xad, 0xe4)
      = Some (HDPublicKeyID_slice MainNetParams_ptr)"
    unfolding r1_def by (simp add: Register_new_hd [of h MainNetParams_ptr emptyRegistry, OF f1] v)
  have f2: "Net (h TestNet3Params_ptr) \<notin> registeredNets r1"
    using assms by (auto simp add: n1 v)
  have n2: "registeredNets r2 = {testNet3, mainNet}"
    unfolding r2_def by (simp add: Register_new_nets [of h TestNet3Params_ptr r1, OF f2] n1 v)
  have m2: "mustRegister h r1 TestNet3Params_ptr = Some r2"
    unfolding r2_def by (rule mustRegister_new [of h TestNet3Params_ptr r1, OF f2])
  have h2: "hdPrivToPubKeyIDs r2 (0x04, 0x88, 0xad, 0xe4)
      = Some (HDPublicKeyID_slice MainNetParams_ptr)"
    unfolding r2_def by (simp add: Register_new_hd [of h TestNet3Params_ptr r1, OF f2] h1 v)
  have f3: "Net (h RegressionNetParams_ptr) \<notin> registeredNets r2"
    using assms by (auto simp add: n2 v)
  have n3: "registeredNets r3 = {testNet, testNet3, mainNet}"
    unfolding r3_def by (simp add: Register_new_nets [of h RegressionNetParams_ptr r2, OF f3] n2 v)
  have m3: "mustRegister h r2 RegressionNetParams_ptr = Some r3"
    unfolding r3_def by (rule mustRegister_new [of h RegressionNetParams_ptr r2, OF f3])
  have h3: "hdPrivToPubKeyIDs r3 (0x04, 0x88, 0xad, 0xe4)
      = Some (HDPublicKeyID_slice MainNetParams_ptr)"
    unfolding r3_def by (simp add: Register_new_hd [of h RegressionNetParams_ptr r2, OF f3] h2 v)
  have f4: "Net (h SimNetParams_ptr) \<notin> registeredNets r3"
    using assms by (auto simp add: n3 v)
  have n4: "registeredNets r4 = {simNet, testNet, testNet3, mainNet}"
    unfolding r4_def by (simp add: Register_new_nets [of h SimNetParams_ptr r3, OF f4] n3 v)
  have m4: "mustRegister h r3 SimNetParams_ptr = Some r4"
    unfolding r4_def by (rule mustRegister_new [of h SimNetParams_ptr r3, OF f4])
  have h4: "hdPrivToPubKeyIDs r4 (0x04, 0x88, 0xad, 0xe4)
      = Some (HDPublicKeyID_slice MainNetParams_ptr)"
    unfolding r4_def by (simp add: Register_new_hd [of h SimNetParams_ptr r3, OF f4] h3 v)
  have i: "init h = Some r4"
    by (simp add: init_def m1 m2 m3 m4)
  have n: "registeredNets r4 = {mainNet, testNet3, testNet, simNet}"
    unfolding n4 by blast
  from i n h4 show ?thesis
    unfolding h_def by (intro exI [of _ r4] conjI)
qed

subsection \<open>Duplicate networks\<close>

text \<open>
  C1. \<open>Register\<close> returns \<open>ErrDuplicateNet\<close> exactly when the network magic of the record
  it is given is already in \<open>registeredNets\<close>, and returns \<open>nil\<close> otherwise; after any call
  for a record, a second call for it, or for any record with the same magic, returns
  \<open>ErrDuplicateNet\<close>. When the four magics of the built-in networks differ, \<open>init\<close>
  registers the four package variables into the empty tables without a panic, and
  registering any of the four once more, or any record with one of the four magics,
  returns \<open>ErrDuplicateNet\<close>.
\<close>

theorem Register_duplicate_iff:
  fixes h h' :: "'net store" and mainNet :: 'net
  shows
  "(snd (Register h r a) = Some ErrDuplicateNet \<longleftrightarrow> Net (h a) \<in> registeredNets r) \<and>
   (snd (Register h r a) = None \<longleftrightarrow> Net (h a) \<notin> registeredNets r) \<and>
   snd (Register h (fst (Register h r a)) a) = Some ErrDuplicateNet \<and>
   (Net (h' a') = Net (h a) \<longrightarrow>
      snd (Register h' (fst (Register h r a)) a') = Some ErrDuplicateNet) \<and>
   (distinct [mainNet, testNet3, testNet, simNet] \<longrightarrow>
      (\<exists>r'. init (initialStore mainNet testNet3 testNet simNet v) = Some r' \<and>
         snd (Register (initialStore mainNet testNet3 testNet simNet v) r' MainNetParams_ptr)
           = Some ErrDuplicateNet \<and>
         snd (Register (initialStore mainNet testNet3 testNet simNet v) r' TestNet3Params_ptr)
           = Some ErrDuplicateNet \<and>
         snd (Register (initialStore mainNet testNet3 testNet simNet v) r' RegressionNetParams_ptr)
           = Some ErrDuplicateNet \<and>
         snd (Register (initialStore mainNet testNet3 testNet simNet v) r' SimNetParams_ptr)
           = Some ErrDuplicateNet \<and>
         (Net (h a) \<in> {mainNet, testNet3, testNet, simNet} \<longrightarrow>
            snd (Register h r' a) = Some ErrDuplicateNet)))"
proof -
  have 1: "snd (Register h r a) = Some ErrDuplicateNet \<longleftrightarrow> Net (h a) \<in> registeredNets r"
    by (simp add: Register_def Let_def)
  have 2: "snd (Register h r a) = None \<longleftrightarrow> Net (h a) \<notin> registeredNets r"
    by (simp add: Register_def Let_def)
  have in_after: "Net (h a) \<in> registeredNets (fst (Register h r a))"
    by (cases "Net (h a) \<in> registeredNets r") (simp_all add: Register_new_nets)
  have 3: "snd (Register h (fst (Register h r a)) a) = Some ErrDuplicateNet"
    using in_after by simp
  have 4: "snd (Register h' (fst (Register h r a)) a') = Some ErrDuplicateNet"
    if "Net (h' a') = Net (h a)"
    using in_after that by simp
  have 5: "\<exists>r'. init (initialStore mainNet testNet3 testNet simNet v) = Some r' \<and>
         snd (Register (initialStore mainNet testNet3 testNet simNet v) r' MainNetParams_ptr)
           = Some ErrDuplicateNet \<and>
         snd (Register (initialStore mainNet testNet3 testNet simNet v) r' TestNet3Params_ptr)
           = Some ErrDuplicateNet \<and>
         snd (Register (initialStore mainNet testNet3 testNet simNet v) r' RegressionNetParams_ptr)
           = Some ErrDuplicateNet \<and>
         snd (Register (initialStore mainNet testNet3 testNet simNet v) r' SimNetParams_ptr)
           = Some ErrDuplicateNet \<and>
         (Net (h a) \<in> {mainNet, testNet3, testNet, simNet} \<longrightarrow>
            snd (Register h r' a) = Some ErrDuplicateNet)"
    if d: "distinct [mainNet, testNet3, testNet, simNet]"
  proof -
    from init_succeeds [OF d, of v] obtain r' where
      i: "init (initialStore mainNet testNet3 testNet simNet v) = Some r'"
      and n: "registeredNets r' = {mainNet, testNet3, testNet, simNet}"
      by (elim exE conjE)
    have g: "snd (Register h r' a) = Some ErrDuplicateNet"
      if "Net (h a) \<in> {mainNet, testNet3, testNet, simNet}"
      using that by (simp add: n [symmetric])
    show ?thesis
      by (rule exI [of _ r']) (simp add: i n g)
  qed
  from 1 2 3 4 5 show ?thesis by (intro conjI impI)
qed

text \<open>
  An instance: the empty tables, the main network's variable, and four different 32-bit
  magics.
\<close>

theorem Register_duplicate_iff_witness:
  "distinct [0xd9b4bef9, 0x0709110b, 0xdab5bffa, 0x12141c16 :: 32 word] \<and>
   Net (initialStore (0xd9b4bef9 :: 32 word) 0x0709110b 0xdab5bffa 0x12141c16
          (SimNetParams 0x12141c16) MainNetParams_ptr)
     \<in> {0xd9b4bef9, 0x0709110b, 0xdab5bffa, 0x12141c16} \<and>
   snd (Register (initialStore (0xd9b4bef9 :: 32 word) 0x0709110b 0xdab5bffa 0x12141c16
                    (SimNetParams 0x12141c16))
          emptyRegistry MainNetParams_ptr) = None \<and>
   snd (Register (initialStore (0xd9b4bef9 :: 32 word) 0x0709110b 0xdab5bffa 0x12141c16
                    (SimNetParams 0x12141c16))
          (fst (Register (initialStore (0xd9b4bef9 :: 32 word) 0x0709110b 0xdab5bffa 0x12141c16
                            (SimNetParams 0x12141c16))
                  emptyRegistry MainNetParams_ptr))
          MainNetParams_ptr) = Some ErrDuplicateNet \<and>
   (\<exists>r'. init (initialStore (0xd9b4bef9 :: 32 word) 0x0709110b 0xdab5bffa 0x12141c16
                  (SimNetParams 0x12141c16)) = Some r' \<and>
      snd (Register (initialStore (0xd9b4bef9 :: 32 word) 0x0709110b 0xdab5bffa 0x12141c16
                       (SimNetParams 0x12141c16)) r' MainNetParams_ptr) = Some ErrDuplicateNet \<and>
      snd (Register (initialStore (0xd9b4bef9 :: 32 word) 0x0709110b 0xdab5bffa 0x12141c16
                       (SimNetParams 0x12141c16)) r' TestNet3Params_ptr) = Some ErrDuplicateNet \<and>
      snd (Register (initialStore (0xd9b4bef9 :: 32 word) 0x0709110b 0xdab5bffa 0x12141c16
                       (SimNetParams 0x12141c16)) r' RegressionNetParams_ptr)
        = Some ErrDuplicateNet \<and>
      snd (Register (initialStore (0xd9b4bef9 :: 32 word) 0x0709110b 0xdab5bffa 0x12141c16
                       (SimNetParams 0x12141c16)) r' SimNetParams_ptr) = Some ErrDuplicateNet)"
proof -
  let ?h = "initialStore (0xd9b4bef9 :: 32 word) 0x0709110b 0xdab5bffa 0x12141c16
              (SimNetParams 0x12141c16)"
  have d: "distinct [0xd9b4bef9, 0x0709110b, 0xdab5bffa, 0x12141c16 :: 32 word]"
    by simp
  have m: "Net (?h MainNetParams_ptr) \<in> {0xd9b4bef9, 0x0709110b, 0xdab5bffa, 0x12141c16}"
    by simp
  have f: "Net (?h MainNetParams_ptr) \<notin> registeredNets emptyRegistry"
    by simp
  note t = Register_duplicate_iff [of ?h emptyRegistry MainNetParams_ptr ?h MainNetParams_ptr
      "0xd9b4bef9" "0x0709110b" "0xdab5bffa" "0x12141c16" "SimNetParams 0x12141c16"]
  from t f have a: "snd (Register ?h emptyRegistry MainNetParams_ptr) = None"
    by blast
  from t have b: "snd (Register ?h (fst (Register ?h emptyRegistry MainNetParams_ptr))
      MainNetParams_ptr) = Some ErrDuplicateNet"
    by blast
  from t d have c: "\<exists>r'. init ?h = Some r' \<and>
      snd (Register ?h r' MainNetParams_ptr) = Some ErrDuplicateNet \<and>
      snd (Register ?h r' TestNet3Params_ptr) = Some ErrDuplicateNet \<and>
      snd (Register ?h r' RegressionNetParams_ptr) = Some ErrDuplicateNet \<and>
      snd (Register ?h r' SimNetParams_ptr) = Some ErrDuplicateNet"
    by blast
  from d m a b c show ?thesis by (intro conjI)
qed

text \<open>
  C9. A call of \<open>Register\<close> that returns \<open>ErrDuplicateNet\<close> leaves all five tables as they
  were.
\<close>

theorem Register_error_unchanged:
  "snd (Register h r a) = Some ErrDuplicateNet \<Longrightarrow> fst (Register h r a) = r"
  by (simp add: Register_def Let_def split: if_splits)

text \<open>An instance: the main network's variable registered a second time.\<close>

theorem Register_error_unchanged_witness:
  "snd (Register (initialStore (0xd9b4bef9 :: 32 word) 0x0709110b 0xdab5bffa 0x12141c16
                    (SimNetParams 0x12141c16))
          (fst (Register (initialStore (0xd9b4bef9 :: 32 word) 0x0709110b 0xdab5bffa 0x12141c16
                            (SimNetParams 0x12141c16))
                  emptyRegistry MainNetParams_ptr))
          MainNetParams_ptr) = Some ErrDuplicateNet \<and>
   fst (Register (initialStore (0xd9b4bef9 :: 32 word) 0x0709110b 0xdab5bffa 0x12141c16
                    (SimNetParams 0x12141c16))
          (fst (Register (initialStore (0xd9b4bef9 :: 32 word) 0x0709110b 0xdab5bffa 0x12141c16
                            (SimNetParams 0x12141c16))
                  emptyRegistry MainNetParams_ptr))
          MainNetParams_ptr)
     = fst (Register (initialStore (0xd9b4bef9 :: 32 word) 0x0709110b 0xdab5bffa 0x12141c16
                        (SimNetParams 0x12141c16))
              emptyRegistry MainNetParams_ptr)"
proof -
  let ?h = "initialStore (0xd9b4bef9 :: 32 word) 0x0709110b 0xdab5bffa 0x12141c16
              (SimNetParams 0x12141c16)"
  have h: "snd (Register ?h (fst (Register ?h emptyRegistry MainNetParams_ptr))
      MainNetParams_ptr) = Some ErrDuplicateNet"
    by (simp add: Register_new_nets)
  from h Register_error_unchanged [OF h] show ?thesis by (rule conjI)
qed

subsection \<open>The effect of a successful registration\<close>

text \<open>
  C4. A call of \<open>Register\<close> that returns \<open>nil\<close> adds the record's network magic to
  \<open>registeredNets\<close>, its pubkey-hash and script-hash prefixes to their sets whatever their
  value, its Aztec prefix to \<open>aztecAddrIDs\<close> only when it is not zero, and stores the slice
  of the record's public extended-key magic under its private one, so that a lookup of
  the private magic right after the call reads the record's public magic. The three
  membership tests answer accordingly afterwards, and answer no for every byte on the
  empty tables. The answer of \<open>IsAztecAddrID\<close> for the byte 0 is not changed by the call,
  and it is no after any run of calls from the empty tables.
\<close>

theorem Register_success_effects:
  fixes h h0 :: "'net store" and r :: "'net Registry"
  assumes ok: "snd (Register h r a) = None"
  shows
    "registeredNets (fst (Register h r a)) = insert (Net (h a)) (registeredNets r) \<and>
     pubKeyHashAddrIDs (fst (Register h r a))
       = insert (PubKeyHashAddrID (h a)) (pubKeyHashAddrIDs r) \<and>
     scriptHashAddrIDs (fst (Register h r a))
       = insert (ScriptHashAddrID (h a)) (scriptHashAddrIDs r) \<and>
     aztecAddrIDs (fst (Register h r a)) =
       (if AztecAddrID (h a) \<noteq> 0 then insert (AztecAddrID (h a)) (aztecAddrIDs r)
        else aztecAddrIDs r) \<and>
     hdPrivToPubKeyIDs (fst (Register h r a)) =
       (hdPrivToPubKeyIDs r)(HDPrivateKeyID (h a) \<mapsto> HDPublicKeyID_slice a) \<and>
     IsPubKeyHashAddrID (fst (Register h r a)) (PubKeyHashAddrID (h a)) \<and>
     IsScriptHashAddrID (fst (Register h r a)) (ScriptHashAddrID (h a)) \<and>
     (AztecAddrID (h a) \<noteq> 0 \<longrightarrow> IsAztecAddrID (fst (Register h r a)) (AztecAddrID (h a))) \<and>
     (IsAztecAddrID (fst (Register h r a)) 0 \<longleftrightarrow> IsAztecAddrID r 0) \<and>
     HDPrivateKeyToPublicKeyID (fst (Register h r a)) (slice4 (HDPrivateKeyID (h a)))
       = Inr (HDPublicKeyID_slice a) \<and>
     lookupAndRead h (fst (Register h r a)) (slice4 (HDPrivateKeyID (h a)))
       = Inr (slice4 (HDPublicKeyID (h a))) \<and>
     \<not> IsPubKeyHashAddrID (emptyRegistry :: 'net Registry) b \<and>
     \<not> IsScriptHashAddrID (emptyRegistry :: 'net Registry) b \<and>
     \<not> IsAztecAddrID (emptyRegistry :: 'net Registry) b \<and>
     \<not> IsAztecAddrID (snd (run (h0, emptyRegistry) cs)) 0"
proof -
  have new: "Net (h a) \<notin> registeredNets r"
    using ok by (cases "Net (h a) \<in> registeredNets r") simp_all
  have z: "IsAztecAddrID (fst (Register h r a)) 0 \<longleftrightarrow> IsAztecAddrID r 0"
    by (simp add: IsAztecAddrID_def Register_keeps_aztec_zero)
  have e: "\<not> IsAztecAddrID (snd (run (h0, emptyRegistry) cs)) 0"
    by (simp add: IsAztecAddrID_def run_aztec_zero emptyRegistry_def)
  have f: "\<not> IsPubKeyHashAddrID (emptyRegistry :: 'net Registry) b"
    "\<not> IsScriptHashAddrID (emptyRegistry :: 'net Registry) b"
    "\<not> IsAztecAddrID (emptyRegistry :: 'net Registry) b"
    by (simp_all add: IsPubKeyHashAddrID_def IsScriptHashAddrID_def IsAztecAddrID_def
        emptyRegistry_def)
  have g: "IsPubKeyHashAddrID (fst (Register h r a)) (PubKeyHashAddrID (h a))"
    "IsScriptHashAddrID (fst (Register h r a)) (ScriptHashAddrID (h a))"
    "AztecAddrID (h a) \<noteq> 0 \<longrightarrow> IsAztecAddrID (fst (Register h r a)) (AztecAddrID (h a))"
    using new
    by (simp_all add: IsPubKeyHashAddrID_def IsScriptHashAddrID_def IsAztecAddrID_def
        Register_new_pubkey Register_new_script Register_new_aztec)
  have l: "HDPrivateKeyToPublicKeyID (fst (Register h r a)) (slice4 (HDPrivateKeyID (h a)))
       = Inr (HDPublicKeyID_slice a)"
    using new by (rule lookup_after_Register [of h a r])
  have lr: "lookupAndRead h (fst (Register h r a)) (slice4 (HDPrivateKeyID (h a)))
       = Inr (slice4 (HDPublicKeyID (h a)))"
    by (simp add: lookupAndRead_def l)
  show ?thesis
    using Register_new_nets [of h a r, OF new] Register_new_pubkey [of h a r, OF new]
      Register_new_script [of h a r, OF new] Register_new_aztec [of h a r, OF new]
      Register_new_hd [of h a r, OF new] l lr z e f g
    by (intro conjI)
qed

text \<open>
  An instance: the simulation network's variable, whose Aztec prefix is zero, into the
  empty tables.
\<close>

theorem Register_success_effects_witness:
  "snd (Register (initialStore (0xd9b4bef9 :: 32 word) 0x0709110b 0xdab5bffa 0x12141c16
                    (SimNetParams 0x12141c16)) emptyRegistry SimNetParams_ptr) = None \<and>
   AztecAddrID (initialStore (0xd9b4bef9 :: 32 word) 0x0709110b 0xdab5bffa 0x12141c16
                    (SimNetParams 0x12141c16) SimNetParams_ptr) = 0 \<and>
   IsPubKeyHashAddrID
     (fst (Register (initialStore (0xd9b4bef9 :: 32 word) 0x0709110b 0xdab5bffa 0x12141c16
                    (SimNetParams 0x12141c16)) emptyRegistry SimNetParams_ptr)) 0x3f \<and>
   IsScriptHashAddrID
     (fst (Register (initialStore (0xd9b4bef9 :: 32 word) 0x0709110b 0xdab5bffa 0x12141c16
                    (SimNetParams 0x12141c16)) emptyRegistry SimNetParams_ptr)) 0x7b \<and>
   \<not> IsAztecAddrID
     (fst (Register (initialStore (0xd9b4bef9 :: 32 word) 0x0709110b 0xdab5bffa 0x12141c16
                    (SimNetParams 0x12141c16)) emptyRegistry SimNetParams_ptr)) 0 \<and>
   lookupAndRead
     (initialStore (0xd9b4bef9 :: 32 word) 0x0709110b 0xdab5bffa 0x12141c16
                    (SimNetParams 0x12141c16))
     (fst (Register (initialStore (0xd9b4bef9 :: 32 word) 0x0709110b 0xdab5bffa 0x12141c16
                    (SimNetParams 0x12141c16)) emptyRegistry SimNetParams_ptr))
     [0x04, 0x20, 0xb9, 0x00] = Inr [0x04, 0x20, 0xbd, 0x3a]"
proof -
  let ?h = "initialStore (0xd9b4bef9 :: 32 word) 0x0709110b 0xdab5bffa 0x12141c16
              (SimNetParams 0x12141c16)"
  have h: "snd (Register ?h emptyRegistry SimNetParams_ptr) = None"
    by (simp add: Register_new_snd)
  have v: "AztecAddrID (?h SimNetParams_ptr) = 0"
    "PubKeyHashAddrID (?h SimNetParams_ptr) = 0x3f"
    "ScriptHashAddrID (?h SimNetParams_ptr) = 0x7b"
    "slice4 (HDPrivateKeyID (?h SimNetParams_ptr)) = [0x04, 0x20, 0xb9, 0x00]"
    "slice4 (HDPublicKeyID (?h SimNetParams_ptr)) = [0x04, 0x20, 0xbd, 0x3a]"
    by (simp_all add: SimNetParams_def)
  from Register_success_effects [OF h, of 0 ?h "[]"] h v show ?thesis
    by simp
qed

subsection \<open>Shared prefixes and shared extended-key magics\<close>

text \<open>
  C7. Two records with different network magics, neither registered before, and the same
  pubkey-hash prefix: both calls of \<open>Register\<close> return \<open>nil\<close>, and \<open>IsPubKeyHashAddrID\<close>
  answers yes for the shared byte after the first call and after the second. The store
  may have been written between the two calls.
\<close>

theorem shared_pubkey_prefix:
  assumes "Net (h1 a1) \<notin> registeredNets r" and "Net (h2 a2) \<notin> registeredNets r"
    and "Net (h1 a1) \<noteq> Net (h2 a2)"
    and "PubKeyHashAddrID (h1 a1) = PubKeyHashAddrID (h2 a2)"
  shows "snd (Register h1 r a1) = None \<and>
         snd (Register h2 (fst (Register h1 r a1)) a2) = None \<and>
         IsPubKeyHashAddrID (fst (Register h1 r a1)) (PubKeyHashAddrID (h1 a1)) \<and>
         IsPubKeyHashAddrID (fst (Register h2 (fst (Register h1 r a1)) a2))
           (PubKeyHashAddrID (h1 a1))"
proof -
  have new2: "Net (h2 a2) \<notin> registeredNets (fst (Register h1 r a1))"
    using assms by (auto simp add: Register_new_nets)
  show ?thesis
    using assms(1,4) new2
    by (simp add: Register_new_snd IsPubKeyHashAddrID_def Register_new_pubkey)
qed

text \<open>
  An instance: the package variables of the test network and of the regression network,
  which both use the prefix \<open>0x6f\<close>.
\<close>

theorem shared_pubkey_prefix_witness:
  "Net (initialStore (0xd9b4bef9 :: 32 word) 0x0709110b 0xdab5bffa 0x12141c16
          (SimNetParams 0x12141c16) TestNet3Params_ptr) \<notin> registeredNets emptyRegistry \<and>
   Net (initialStore (0xd9b4bef9 :: 32 word) 0x0709110b 0xdab5bffa 0x12141c16
          (SimNetParams 0x12141c16) RegressionNetParams_ptr) \<notin> registeredNets emptyRegistry \<and>
   Net (initialStore (0xd9b4bef9 :: 32 word) 0x0709110b 0xdab5bffa 0x12141c16
          (SimNetParams 0x12141c16) TestNet3Params_ptr)
     \<noteq> Net (initialStore (0xd9b4bef9 :: 32 word) 0x0709110b 0xdab5bffa 0x12141c16
          (SimNetParams 0x12141c16) RegressionNetParams_ptr) \<and>
   PubKeyHashAddrID (initialStore (0xd9b4bef9 :: 32 word) 0x0709110b 0xdab5bffa 0x12141c16
          (SimNetParams 0x12141c16) TestNet3Params_ptr)
     = PubKeyHashAddrID (initialStore (0xd9b4bef9 :: 32 word) 0x0709110b 0xdab5bffa 0x12141c16
          (SimNetParams 0x12141c16) RegressionNetParams_ptr) \<and>
   snd (Register (initialStore (0xd9b4bef9 :: 32 word) 0x0709110b 0xdab5bffa 0x12141c16
          (SimNetParams 0x12141c16)) emptyRegistry TestNet3Params_ptr) = None \<and>
   snd (Register (initialStore (0xd9b4bef9 :: 32 word) 0x0709110b 0xdab5bffa 0x12141c16
          (SimNetParams 0x12141c16))
      (fst (Register (initialStore (0xd9b4bef9 :: 32 word) 0x0709110b 0xdab5bffa 0x12141c16
          (SimNetParams 0x12141c16)) emptyRegistry TestNet3Params_ptr))
      RegressionNetParams_ptr) = None \<and>
   IsPubKeyHashAddrID
      (fst (Register (initialStore (0xd9b4bef9 :: 32 word) 0x0709110b 0xdab5bffa 0x12141c16
          (SimNetParams 0x12141c16))
         (fst (Register (initialStore (0xd9b4bef9 :: 32 word) 0x0709110b 0xdab5bffa 0x12141c16
          (SimNetParams 0x12141c16)) emptyRegistry TestNet3Params_ptr))
         RegressionNetParams_ptr)) 0x6f"
proof -
  let ?h = "initialStore (0xd9b4bef9 :: 32 word) 0x0709110b 0xdab5bffa 0x12141c16
              (SimNetParams 0x12141c16)"
  have a: "Net (?h TestNet3Params_ptr) \<notin> registeredNets emptyRegistry"
    by simp
  have b: "Net (?h RegressionNetParams_ptr) \<notin> registeredNets emptyRegistry"
    by simp
  have c: "Net (?h TestNet3Params_ptr) \<noteq> Net (?h RegressionNetParams_ptr)"
    by simp
  have d: "PubKeyHashAddrID (?h TestNet3Params_ptr) = PubKeyHashAddrID (?h RegressionNetParams_ptr)"
    by simp
  from shared_pubkey_prefix [of ?h TestNet3Params_ptr emptyRegistry ?h RegressionNetParams_ptr,
      OF a b c d] a b c d
  show ?thesis by simp
qed

text \<open>
  C6. Two records with different network magics, neither registered before, and the same
  private extended-key magic: both calls of \<open>Register\<close> return \<open>nil\<close>, and the lookup of
  the shared private magic then returns the slice of the record registered last and reads
  its public magic. The second call overwrites the entry of the first.
\<close>

theorem last_registration_wins:
  assumes "Net (h1 a1) \<notin> registeredNets r" and "Net (h2 a2) \<notin> registeredNets r"
    and "Net (h1 a1) \<noteq> Net (h2 a2)"
    and "HDPrivateKeyID (h1 a1) = HDPrivateKeyID (h2 a2)"
  shows "snd (Register h1 r a1) = None \<and>
         snd (Register h2 (fst (Register h1 r a1)) a2) = None \<and>
         HDPrivateKeyToPublicKeyID (fst (Register h2 (fst (Register h1 r a1)) a2))
             (slice4 (HDPrivateKeyID (h1 a1)))
           = Inr (HDPublicKeyID_slice a2) \<and>
         lookupAndRead h2 (fst (Register h2 (fst (Register h1 r a1)) a2))
             (slice4 (HDPrivateKeyID (h1 a1)))
           = Inr (slice4 (HDPublicKeyID (h2 a2)))"
proof -
  have new2: "Net (h2 a2) \<notin> registeredNets (fst (Register h1 r a1))"
    using assms by (auto simp add: Register_new_nets)
  have l: "HDPrivateKeyToPublicKeyID (fst (Register h2 (fst (Register h1 r a1)) a2))
             (slice4 (HDPrivateKeyID (h2 a2))) = Inr (HDPublicKeyID_slice a2)"
    using new2 by (rule lookup_after_Register [of h2 a2])
  then have "lookupAndRead h2 (fst (Register h2 (fst (Register h1 r a1)) a2))
             (slice4 (HDPrivateKeyID (h2 a2))) = Inr (slice4 (HDPublicKeyID (h2 a2)))"
    by (simp add: lookupAndRead_def)
  with l assms(1,4) new2 show ?thesis
    by (simp add: Register_new_snd)
qed

text \<open>
  The first registration does not win: after the test network's variable, a variable of
  a caller with another network magic, the same private magic and another public magic is
  registered, and the lookup no longer reads the public magic of the first.
\<close>

theorem first_registration_overwritten:
  "snd (Register ((initialStore (0xd9b4bef9 :: 32 word) 0x0709110b 0xdab5bffa 0x12141c16
        (SimNetParams 0x12141c16))
       (Caller_ptr 0 :=
          (RegressionNetParams 0xdab5bffa)\<lparr>HDPublicKeyID := (0x04, 0x88, 0xb2, 0x1e)\<rparr>)) emptyRegistry TestNet3Params_ptr) = None \<and>
   snd (Register ((initialStore (0xd9b4bef9 :: 32 word) 0x0709110b 0xdab5bffa 0x12141c16
        (SimNetParams 0x12141c16))
       (Caller_ptr 0 :=
          (RegressionNetParams 0xdab5bffa)\<lparr>HDPublicKeyID := (0x04, 0x88, 0xb2, 0x1e)\<rparr>))
      (fst (Register ((initialStore (0xd9b4bef9 :: 32 word) 0x0709110b 0xdab5bffa 0x12141c16
        (SimNetParams 0x12141c16))
       (Caller_ptr 0 :=
          (RegressionNetParams 0xdab5bffa)\<lparr>HDPublicKeyID := (0x04, 0x88, 0xb2, 0x1e)\<rparr>)) emptyRegistry TestNet3Params_ptr))
      (Caller_ptr 0)) = None \<and>
   Net (((initialStore (0xd9b4bef9 :: 32 word) 0x0709110b 0xdab5bffa 0x12141c16
        (SimNetParams 0x12141c16))
       (Caller_ptr 0 :=
          (RegressionNetParams 0xdab5bffa)\<lparr>HDPublicKeyID := (0x04, 0x88, 0xb2, 0x1e)\<rparr>)) TestNet3Params_ptr) \<noteq> Net (((initialStore (0xd9b4bef9 :: 32 word) 0x0709110b 0xdab5bffa 0x12141c16
        (SimNetParams 0x12141c16))
       (Caller_ptr 0 :=
          (RegressionNetParams 0xdab5bffa)\<lparr>HDPublicKeyID := (0x04, 0x88, 0xb2, 0x1e)\<rparr>)) (Caller_ptr 0)) \<and>
   HDPrivateKeyID (((initialStore (0xd9b4bef9 :: 32 word) 0x0709110b 0xdab5bffa 0x12141c16
        (SimNetParams 0x12141c16))
       (Caller_ptr 0 :=
          (RegressionNetParams 0xdab5bffa)\<lparr>HDPublicKeyID := (0x04, 0x88, 0xb2, 0x1e)\<rparr>)) TestNet3Params_ptr) = HDPrivateKeyID (((initialStore (0xd9b4bef9 :: 32 word) 0x0709110b 0xdab5bffa 0x12141c16
        (SimNetParams 0x12141c16))
       (Caller_ptr 0 :=
          (RegressionNetParams 0xdab5bffa)\<lparr>HDPublicKeyID := (0x04, 0x88, 0xb2, 0x1e)\<rparr>)) (Caller_ptr 0)) \<and>
   lookupAndRead ((initialStore (0xd9b4bef9 :: 32 word) 0x0709110b 0xdab5bffa 0x12141c16
        (SimNetParams 0x12141c16))
       (Caller_ptr 0 :=
          (RegressionNetParams 0xdab5bffa)\<lparr>HDPublicKeyID := (0x04, 0x88, 0xb2, 0x1e)\<rparr>))
      (fst (Register ((initialStore (0xd9b4bef9 :: 32 word) 0x0709110b 0xdab5bffa 0x12141c16
        (SimNetParams 0x12141c16))
       (Caller_ptr 0 :=
          (RegressionNetParams 0xdab5bffa)\<lparr>HDPublicKeyID := (0x04, 0x88, 0xb2, 0x1e)\<rparr>))
         (fst (Register ((initialStore (0xd9b4bef9 :: 32 word) 0x0709110b 0xdab5bffa 0x12141c16
        (SimNetParams 0x12141c16))
       (Caller_ptr 0 :=
          (RegressionNetParams 0xdab5bffa)\<lparr>HDPublicKeyID := (0x04, 0x88, 0xb2, 0x1e)\<rparr>)) emptyRegistry TestNet3Params_ptr))
         (Caller_ptr 0)))
      (slice4 (HDPrivateKeyID (((initialStore (0xd9b4bef9 :: 32 word) 0x0709110b 0xdab5bffa 0x12141c16
        (SimNetParams 0x12141c16))
       (Caller_ptr 0 :=
          (RegressionNetParams 0xdab5bffa)\<lparr>HDPublicKeyID := (0x04, 0x88, 0xb2, 0x1e)\<rparr>)) TestNet3Params_ptr)))
     \<noteq> Inr (slice4 (HDPublicKeyID (((initialStore (0xd9b4bef9 :: 32 word) 0x0709110b 0xdab5bffa 0x12141c16
        (SimNetParams 0x12141c16))
       (Caller_ptr 0 :=
          (RegressionNetParams 0xdab5bffa)\<lparr>HDPublicKeyID := (0x04, 0x88, 0xb2, 0x1e)\<rparr>)) TestNet3Params_ptr)))"
  by (simp add: Register_new lookupAndRead_def HDPrivateKeyToPublicKeyID_def)

text \<open>The same two variables as an instance of the theorem.\<close>

theorem last_registration_wins_witness:
  "Net (((initialStore (0xd9b4bef9 :: 32 word) 0x0709110b 0xdab5bffa 0x12141c16
        (SimNetParams 0x12141c16))
       (Caller_ptr 0 :=
          (RegressionNetParams 0xdab5bffa)\<lparr>HDPublicKeyID := (0x04, 0x88, 0xb2, 0x1e)\<rparr>)) TestNet3Params_ptr) \<notin> registeredNets emptyRegistry \<and>
   Net (((initialStore (0xd9b4bef9 :: 32 word) 0x0709110b 0xdab5bffa 0x12141c16
        (SimNetParams 0x12141c16))
       (Caller_ptr 0 :=
          (RegressionNetParams 0xdab5bffa)\<lparr>HDPublicKeyID := (0x04, 0x88, 0xb2, 0x1e)\<rparr>)) (Caller_ptr 0)) \<notin> registeredNets emptyRegistry \<and>
   Net (((initialStore (0xd9b4bef9 :: 32 word) 0x0709110b 0xdab5bffa 0x12141c16
        (SimNetParams 0x12141c16))
       (Caller_ptr 0 :=
          (RegressionNetParams 0xdab5bffa)\<lparr>HDPublicKeyID := (0x04, 0x88, 0xb2, 0x1e)\<rparr>)) TestNet3Params_ptr) \<noteq> Net (((initialStore (0xd9b4bef9 :: 32 word) 0x0709110b 0xdab5bffa 0x12141c16
        (SimNetParams 0x12141c16))
       (Caller_ptr 0 :=
          (RegressionNetParams 0xdab5bffa)\<lparr>HDPublicKeyID := (0x04, 0x88, 0xb2, 0x1e)\<rparr>)) (Caller_ptr 0)) \<and>
   HDPrivateKeyID (((initialStore (0xd9b4bef9 :: 32 word) 0x0709110b 0xdab5bffa 0x12141c16
        (SimNetParams 0x12141c16))
       (Caller_ptr 0 :=
          (RegressionNetParams 0xdab5bffa)\<lparr>HDPublicKeyID := (0x04, 0x88, 0xb2, 0x1e)\<rparr>)) TestNet3Params_ptr) = HDPrivateKeyID (((initialStore (0xd9b4bef9 :: 32 word) 0x0709110b 0xdab5bffa 0x12141c16
        (SimNetParams 0x12141c16))
       (Caller_ptr 0 :=
          (RegressionNetParams 0xdab5bffa)\<lparr>HDPublicKeyID := (0x04, 0x88, 0xb2, 0x1e)\<rparr>)) (Caller_ptr 0)) \<and>
   lookupAndRead ((initialStore (0xd9b4bef9 :: 32 word) 0x0709110b 0xdab5bffa 0x12141c16
        (SimNetParams 0x12141c16))
       (Caller_ptr 0 :=
          (RegressionNetParams 0xdab5bffa)\<lparr>HDPublicKeyID := (0x04, 0x88, 0xb2, 0x1e)\<rparr>))
      (fst (Register ((initialStore (0xd9b4bef9 :: 32 word) 0x0709110b 0xdab5bffa 0x12141c16
        (SimNetParams 0x12141c16))
       (Caller_ptr 0 :=
          (RegressionNetParams 0xdab5bffa)\<lparr>HDPublicKeyID := (0x04, 0x88, 0xb2, 0x1e)\<rparr>))
         (fst (Register ((initialStore (0xd9b4bef9 :: 32 word) 0x0709110b 0xdab5bffa 0x12141c16
        (SimNetParams 0x12141c16))
       (Caller_ptr 0 :=
          (RegressionNetParams 0xdab5bffa)\<lparr>HDPublicKeyID := (0x04, 0x88, 0xb2, 0x1e)\<rparr>)) emptyRegistry TestNet3Params_ptr))
         (Caller_ptr 0)))
      [0x04, 0x35, 0x83, 0x94]
     = Inr [0x04, 0x88, 0xb2, 0x1e]"
proof -
  let ?s = "((initialStore (0xd9b4bef9 :: 32 word) 0x0709110b 0xdab5bffa 0x12141c16
        (SimNetParams 0x12141c16))
       (Caller_ptr 0 :=
          (RegressionNetParams 0xdab5bffa)\<lparr>HDPublicKeyID := (0x04, 0x88, 0xb2, 0x1e)\<rparr>))"
  have a: "Net (?s TestNet3Params_ptr) \<notin> registeredNets emptyRegistry"
    by simp
  have b: "Net (?s (Caller_ptr 0)) \<notin> registeredNets emptyRegistry"
    by simp
  have c: "Net (?s TestNet3Params_ptr) \<noteq> Net (?s (Caller_ptr 0))"
    by simp
  have d: "HDPrivateKeyID (?s TestNet3Params_ptr) = HDPrivateKeyID (?s (Caller_ptr 0))"
    by simp
  from last_registration_wins [of ?s TestNet3Params_ptr emptyRegistry ?s "Caller_ptr 0",
      OF a b c d] a b c d
  show ?thesis by simp
qed

subsection \<open>Nothing is ever removed\<close>

lemma Register_mono:
  "registeredNets r \<subseteq> registeredNets (fst (Register h r a))"
  "pubKeyHashAddrIDs r \<subseteq> pubKeyHashAddrIDs (fst (Register h r a))"
  "scriptHashAddrIDs r \<subseteq> scriptHashAddrIDs (fst (Register h r a))"
  "aztecAddrIDs r \<subseteq> aztecAddrIDs (fst (Register h r a))"
  "dom (hdPrivToPubKeyIDs r) \<subseteq> dom (hdPrivToPubKeyIDs (fst (Register h r a)))"
  by (auto simp add: Register_def Let_def)

lemma step_mono:
  "registeredNets (snd w) \<subseteq> registeredNets (snd (fst (step w c)))"
  "pubKeyHashAddrIDs (snd w) \<subseteq> pubKeyHashAddrIDs (snd (fst (step w c)))"
  "scriptHashAddrIDs (snd w) \<subseteq> scriptHashAddrIDs (snd (fst (step w c)))"
  "aztecAddrIDs (snd w) \<subseteq> aztecAddrIDs (snd (fst (step w c)))"
  "dom (hdPrivToPubKeyIDs (snd w)) \<subseteq> dom (hdPrivToPubKeyIDs (snd (fst (step w c))))"
  using Register_mono [of "snd w" "fst w"]
  by (cases w; cases c; simp add: split_beta)+

lemma run_mono:
  "registeredNets (snd w) \<subseteq> registeredNets (snd (run w cs)) \<and>
   pubKeyHashAddrIDs (snd w) \<subseteq> pubKeyHashAddrIDs (snd (run w cs)) \<and>
   scriptHashAddrIDs (snd w) \<subseteq> scriptHashAddrIDs (snd (run w cs)) \<and>
   aztecAddrIDs (snd w) \<subseteq> aztecAddrIDs (snd (run w cs)) \<and>
   dom (hdPrivToPubKeyIDs (snd w)) \<subseteq> dom (hdPrivToPubKeyIDs (snd (run w cs)))"
proof (induction cs arbitrary: w)
  case Nil
  show ?case by simp
next
  case (Cons c cs)
  from Cons.IH [of "fst (step w c)"] step_mono [of w c]
  show ?case by (simp only: run.simps) (meson order_trans)
qed

lemma run_append: "run w (cs @ cs') = run (run w cs) cs'"
  by (induction cs arbitrary: w) simp_all

text \<open>
  C8. Whatever calls \<open>cs\<close> have been made, and whatever calls \<open>cs'\<close> follow, registrations
  that succeed or fail, lookups and assignments to \<open>Params\<close> variables in any order: each
  of the four sets after \<open>cs\<close> is contained in the set after \<open>cs @ cs'\<close>, and so are the keys
  of the extended-key table. A membership test that answered yes still answers yes, a
  lookup of a private magic that succeeded still succeeds, and a network magic that was
  registered is still refused. The four lookups return the store and the tables as they
  received them, an assignment leaves the tables alone, and \<open>Register\<close> leaves the store
  alone.
\<close>

theorem registry_append_only:
  "registeredNets (snd (run w cs)) \<subseteq> registeredNets (snd (run w (cs @ cs'))) \<and>
   pubKeyHashAddrIDs (snd (run w cs)) \<subseteq> pubKeyHashAddrIDs (snd (run w (cs @ cs'))) \<and>
   scriptHashAddrIDs (snd (run w cs)) \<subseteq> scriptHashAddrIDs (snd (run w (cs @ cs'))) \<and>
   aztecAddrIDs (snd (run w cs)) \<subseteq> aztecAddrIDs (snd (run w (cs @ cs'))) \<and>
   dom (hdPrivToPubKeyIDs (snd (run w cs)))
     \<subseteq> dom (hdPrivToPubKeyIDs (snd (run w (cs @ cs')))) \<and>
   (IsPubKeyHashAddrID (snd (run w cs)) b \<longrightarrow>
      IsPubKeyHashAddrID (snd (run w (cs @ cs'))) b) \<and>
   (IsScriptHashAddrID (snd (run w cs)) b \<longrightarrow>
      IsScriptHashAddrID (snd (run w (cs @ cs'))) b) \<and>
   (IsAztecAddrID (snd (run w cs)) b \<longrightarrow> IsAztecAddrID (snd (run w (cs @ cs'))) b) \<and>
   (HDPrivateKeyToPublicKeyID (snd (run w cs)) bs \<noteq> Inl ErrUnknownHDKeyID \<longrightarrow>
      HDPrivateKeyToPublicKeyID (snd (run w (cs @ cs'))) bs \<noteq> Inl ErrUnknownHDKeyID) \<and>
   (Net (h a) \<in> registeredNets (snd (run w cs)) \<longrightarrow>
      snd (Register h (snd (run w (cs @ cs'))) a) = Some ErrDuplicateNet) \<and>
   fst (step w (CallIsPubKeyHashAddrID b)) = w \<and>
   fst (step w (CallIsScriptHashAddrID b)) = w \<and>
   fst (step w (CallIsAztecAddrID b)) = w \<and>
   fst (step w (CallHDPrivateKeyToPublicKeyID bs)) = w \<and>
   snd (fst (step w (Assign a p))) = snd w \<and>
   fst (fst (step w (CallRegister a))) = fst w"
proof -
  note m = run_mono [of "run w cs" cs', folded run_append]
  have hd: "HDPrivateKeyToPublicKeyID (snd (run w (cs @ cs'))) bs \<noteq> Inl ErrUnknownHDKeyID"
    if "HDPrivateKeyToPublicKeyID (snd (run w cs)) bs \<noteq> Inl ErrUnknownHDKeyID"
  proof -
    from that have l: "length bs = 4"
      and "copy4 bs \<in> dom (hdPrivToPubKeyIDs (snd (run w cs)))"
      by (auto simp add: HDPrivateKeyToPublicKeyID_def split: if_splits option.splits)
    with m have "copy4 bs \<in> dom (hdPrivToPubKeyIDs (snd (run w (cs @ cs'))))"
      by blast
    with l show ?thesis
      by (auto simp add: HDPrivateKeyToPublicKeyID_def)
  qed
  have dup: "snd (Register h (snd (run w (cs @ cs'))) a) = Some ErrDuplicateNet"
    if "Net (h a) \<in> registeredNets (snd (run w cs))"
  proof -
    from that m have "Net (h a) \<in> registeredNets (snd (run w (cs @ cs')))" by blast
    then show ?thesis by simp
  qed
  from m have q:
    "IsPubKeyHashAddrID (snd (run w cs)) b \<longrightarrow> IsPubKeyHashAddrID (snd (run w (cs @ cs'))) b"
    "IsScriptHashAddrID (snd (run w cs)) b \<longrightarrow> IsScriptHashAddrID (snd (run w (cs @ cs'))) b"
    "IsAztecAddrID (snd (run w cs)) b \<longrightarrow> IsAztecAddrID (snd (run w (cs @ cs'))) b"
    unfolding IsPubKeyHashAddrID_def IsScriptHashAddrID_def IsAztecAddrID_def by blast+
  have s: "fst (step w (CallIsPubKeyHashAddrID b)) = w"
    "fst (step w (CallIsScriptHashAddrID b)) = w"
    "fst (step w (CallIsAztecAddrID b)) = w"
    "fst (step w (CallHDPrivateKeyToPublicKeyID bs)) = w"
    "snd (fst (step w (Assign a p))) = snd w"
    "fst (fst (step w (CallRegister a))) = fst w"
    by (cases w; simp add: split_beta)+
  from m q hd dup s show ?thesis
    by blast
qed

text \<open>
  An instance: the main network's Aztec prefix stays claimed through a membership test, a
  failing registration, an assignment to the registered variable, a successful
  registration of the variable's new contents and a lookup.
\<close>

theorem registry_append_only_witness:
  "IsAztecAddrID (snd (run ((initialStore (0xd9b4bef9 :: 32 word) 0x0709110b 0xdab5bffa 0x12141c16
        (SimNetParams 0x12141c16)), emptyRegistry) [CallRegister MainNetParams_ptr])) 0x33 \<and>
   IsAztecAddrID
     (snd (run ((initialStore (0xd9b4bef9 :: 32 word) 0x0709110b 0xdab5bffa 0x12141c16
        (SimNetParams 0x12141c16)), emptyRegistry)
        ([CallRegister MainNetParams_ptr] @
         [CallIsAztecAddrID 0x33, CallRegister MainNetParams_ptr,
          Assign MainNetParams_ptr (SimNetParams 0x12141c16),
          CallRegister MainNetParams_ptr,
          CallHDPrivateKeyToPublicKeyID [0x04, 0x88, 0xad, 0xe4]]))) 0x33"
proof -
  let ?w = "((initialStore (0xd9b4bef9 :: 32 word) 0x0709110b 0xdab5bffa 0x12141c16
        (SimNetParams 0x12141c16)), emptyRegistry)"
  have h: "IsAztecAddrID (snd (run ?w [CallRegister MainNetParams_ptr])) 0x33"
    by (simp add: split_beta IsAztecAddrID_def Register_new_aztec)
  from registry_append_only [where w = ?w and cs = "[CallRegister MainNetParams_ptr]"
      and cs' = "[CallIsAztecAddrID 0x33, CallRegister MainNetParams_ptr,
          Assign MainNetParams_ptr (SimNetParams 0x12141c16),
          CallRegister MainNetParams_ptr,
          CallHDPrivateKeyToPublicKeyID [0x04, 0x88, 0xad, 0xe4]]" and b = "0x33"] h
  show ?thesis by blast
qed

subsection \<open>The lookup of a private extended-key magic\<close>

lemma map_of_rev_last:
  "map_of (rev (map (\<lambda>p. (f p, g p)) xs)) k =
     (if k \<in> f ` set xs then Some (g (last (filter (\<lambda>p. f p = k) xs))) else None)"
proof (induction xs rule: rev_induct)
  case Nil
  show ?case by simp
next
  case (snoc x xs)
  show ?case
  proof (cases "f x = k")
    case True
    then show ?thesis by auto
  next
    case False
    then show ?thesis using snoc.IH by auto
  qed
qed

lemma step_hd:
  "hdPrivToPubKeyIDs (snd (fst (step w c))) =
     hdPrivToPubKeyIDs (snd w) ++
       map_of (rev (map (\<lambda>e. (fst e, HDPublicKeyID_slice (snd e))) (accepted_by w c)))"
proof (cases w)
  case (Pair h r)
  show ?thesis
  proof (cases c)
    case (CallRegister a)
    show ?thesis
    proof (cases "Net (h a) \<in> registeredNets r")
      case True
      then show ?thesis by (simp add: Pair CallRegister)
    next
      case False
      then show ?thesis
        by (simp add: Pair CallRegister Register_new_snd Register_new_hd split_beta)
    qed
  qed (simp_all add: Pair)
qed

lemma run_hd:
  "hdPrivToPubKeyIDs (snd (run w cs)) =
     hdPrivToPubKeyIDs (snd w) ++
       map_of (rev (map (\<lambda>e. (fst e, HDPublicKeyID_slice (snd e))) (accepted w cs)))"
proof (induction cs arbitrary: w)
  case Nil
  show ?case by simp
next
  case (Cons c cs)
  show ?case
    by (simp add: Cons.IH step_hd)
qed

lemma run_empty_lookup:
  "hdPrivToPubKeyIDs (snd (run (h, emptyRegistry) cs)) k =
     (if k \<in> fst ` set (accepted (h, emptyRegistry) cs)
      then Some (HDPublicKeyID_slice
             (snd (last (filter (\<lambda>e. fst e = k) (accepted (h, emptyRegistry) cs)))))
      else None)"
proof -
  have "hdPrivToPubKeyIDs (emptyRegistry :: 'a Registry) = Map.empty"
    by (simp add: emptyRegistry_def)
  then show ?thesis
    by (simp add: run_hd [of "(h, emptyRegistry)" cs] map_of_rev_last)
qed

lemma step_no_Assign: "\<not> is_Assign c \<Longrightarrow> fst (fst (step w c)) = fst w"
  by (cases w; cases c) (simp_all add: split_beta)

lemma run_no_Assign:
  "\<forall>c\<in>set cs. \<not> is_Assign c \<Longrightarrow> fst (run w cs) = fst w"
  by (induction cs arbitrary: w) (simp_all add: step_no_Assign)

lemma accepted_by_key:
  "e \<in> set (accepted_by w c) \<Longrightarrow> fst e = HDPrivateKeyID (fst w (snd e))"
  by (cases w; cases c) (auto split: if_splits)

lemma accepted_no_Assign:
  "\<forall>c\<in>set cs. \<not> is_Assign c \<Longrightarrow> e \<in> set (accepted w cs) \<Longrightarrow>
   fst e = HDPrivateKeyID (fst w (snd e))"
proof (induction cs arbitrary: w)
  case Nil
  then show ?case by simp
next
  case (Cons c cs)
  from Cons.prems(2) consider "e \<in> set (accepted_by w c)"
    | "e \<in> set (accepted (fst (step w c)) cs)"
    by auto
  then show ?case
  proof cases
    case 1
    then show ?thesis by (rule accepted_by_key)
  next
    case 2
    have "fst e = HDPrivateKeyID (fst (fst (step w c)) (snd e))"
      using Cons.prems(1) 2 by (intro Cons.IH) simp_all
    then show ?thesis
      using Cons.prems(1) by (simp add: step_no_Assign)
  qed
qed




section \<open>The dampening band: results\<close>

subsection \<open>Signed 64-bit arithmetic\<close>

lemma Minute_value: "Minute = 60000000000"
  by (simp add: Minute_def Second_def Millisecond_def Microsecond_def Nanosecond_def)

lemma sdiv_100_nonneg: "0 \<le> k \<Longrightarrow> (k :: int) sdiv 100 = k div 100"
  by (cases "k = 0") (simp_all add: signed_divide_int_def)

lemma sdiv_100_neg: "k < 0 \<Longrightarrow> (k :: int) sdiv 100 = - ((- k) div 100)"
  by (simp add: signed_divide_int_def)

lemma sdiv_100_range:
  assumes "- (2 ^ 63) \<le> (k :: int)" and "k < 2 ^ 63"
  shows "- (2 ^ 63) \<le> k sdiv 100 \<and> k sdiv 100 < 2 ^ 63"
proof (cases "0 \<le> k")
  case True
  then show ?thesis using assms by (simp add: sdiv_100_nonneg) linarith
next
  case False
  then show ?thesis using assms by (simp add: sdiv_100_neg) linarith
qed

lemma sint_quo_100: "sint (quo x 100) = sint x sdiv 100"
proof -
  have "- (2 ^ 63) \<le> sint x" and "sint x < 2 ^ 63"
    using sint_ge [of x] sint_lt [of x] by simp_all
  then have "- (2 ^ 63) \<le> sint x sdiv 100 \<and> sint x sdiv 100 < 2 ^ 63"
    by (rule sdiv_100_range)
  then show ?thesis
    by (simp add: quo_def sint_sbintrunc' signed_take_bit_int_eq_self)
qed

lemma sint_mult_64:
  "- (2 ^ 63) \<le> sint a * sint b \<Longrightarrow> sint a * sint b < 2 ^ 63 \<Longrightarrow>
   sint (a * b :: 64 word) = sint a * sint b"
  by (simp add: sint_word_ariths signed_take_bit_int_eq_self)

lemma sint_100_plus:
  "- (2 ^ 63) \<le> 100 + sint d \<Longrightarrow> 100 + sint d < 2 ^ 63 \<Longrightarrow>
   sint (100 + d :: 64 word) = 100 + sint d"
  by (simp add: sint_word_ariths signed_take_bit_int_eq_self)

lemma sint_100_minus:
  "- (2 ^ 63) \<le> 100 - sint u \<Longrightarrow> 100 - sint u < 2 ^ 63 \<Longrightarrow>
   sint (100 - u :: 64 word) = 100 - sint u"
  by (simp add: sint_word_ariths signed_take_bit_int_eq_self)

lemma sint_eq_0_D: "sint (w :: 64 word) = 0 \<Longrightarrow> w = 0"
  by (simp add: signed_eq_0_iff)

subsection \<open>The three functions on integers\<close>

lemma sint_AveragingWindowTimespan:
  "int64_range (sint (PowAveragingWindow p) * sint (TargetTimePerBlock p)) \<Longrightarrow>
   sint (AveragingWindowTimespan p) = sint (PowAveragingWindow p) * sint (TargetTimePerBlock p)"
  unfolding AveragingWindowTimespan_def int64_range_def
  by (intro sint_mult_64) blast+

lemma sint_MaxActualTimespan:
  assumes a: "int64_range (sint (PowAveragingWindow p) * sint (TargetTimePerBlock p))"
    and b: "int64_range (100 + sint (PowMaxAdjustDown p))"
    and c: "int64_range (sint (PowAveragingWindow p) * sint (TargetTimePerBlock p)
                     * (100 + sint (PowMaxAdjustDown p)))"
  shows "sint (MaxActualTimespan p)
          = (sint (PowAveragingWindow p) * sint (TargetTimePerBlock p)
               * (100 + sint (PowMaxAdjustDown p))) sdiv 100"
proof -
  note avg = sint_AveragingWindowTimespan [OF a]
  have d: "sint (100 + PowMaxAdjustDown p) = 100 + sint (PowMaxAdjustDown p)"
    using b unfolding int64_range_def by (intro sint_100_plus) blast+
  have "- (2 ^ 63) \<le> sint (AveragingWindowTimespan p) * sint (100 + PowMaxAdjustDown p)"
    and "sint (AveragingWindowTimespan p) * sint (100 + PowMaxAdjustDown p) < 2 ^ 63"
    using c by (simp_all add: int64_range_def avg d)
  then have "sint (AveragingWindowTimespan p * (100 + PowMaxAdjustDown p))
      = sint (AveragingWindowTimespan p) * sint (100 + PowMaxAdjustDown p)"
    by (rule sint_mult_64)
  then show ?thesis
    by (simp add: MaxActualTimespan_def Let_def sint_quo_100 avg d)
qed

lemma sint_MinActualTimespan:
  assumes a: "int64_range (sint (PowAveragingWindow p) * sint (TargetTimePerBlock p))"
    and b: "int64_range (100 - sint (PowMaxAdjustUp p))"
    and c: "int64_range (sint (PowAveragingWindow p) * sint (TargetTimePerBlock p)
                     * (100 - sint (PowMaxAdjustUp p)))"
  shows "sint (MinActualTimespan p)
          = (sint (PowAveragingWindow p) * sint (TargetTimePerBlock p)
               * (100 - sint (PowMaxAdjustUp p))) sdiv 100"
proof -
  note avg = sint_AveragingWindowTimespan [OF a]
  have d: "sint (100 - PowMaxAdjustUp p) = 100 - sint (PowMaxAdjustUp p)"
    using b unfolding int64_range_def by (intro sint_100_minus) blast+
  have "- (2 ^ 63) \<le> sint (AveragingWindowTimespan p) * sint (100 - PowMaxAdjustUp p)"
    and "sint (AveragingWindowTimespan p) * sint (100 - PowMaxAdjustUp p) < 2 ^ 63"
    using c by (simp_all add: int64_range_def avg d)
  then have "sint (AveragingWindowTimespan p * (100 - PowMaxAdjustUp p))
      = sint (AveragingWindowTimespan p) * sint (100 - PowMaxAdjustUp p)"
    by (rule sint_mult_64)
  then show ?thesis
    by (simp add: MinActualTimespan_def Let_def sint_quo_100 avg d)
qed

lemma mainnet_band_fields [simp]:
  "PowAveragingWindow (MainNetParams a) = 17"
  "TargetTimePerBlock (MainNetParams a) = 60000000000"
  "PowMaxAdjustDown (MainNetParams a) = 32"
  "PowMaxAdjustUp (MainNetParams a) = 16"
  by (simp_all add: MainNetParams_def Minute_value)

text \<open>
  C2. For every record, in the wrapping signed 64-bit arithmetic of the source:
  \<open>AveragingWindowTimespan\<close> is the window times the target time per block;
  \<open>MaxActualTimespan\<close> is that timespan times \<open>100 + PowMaxAdjustDown\<close>, then divided by 100;
  \<open>MinActualTimespan\<close> is that timespan times \<open>100 - PowMaxAdjustUp\<close>, then divided by 100.
  The product is formed first and the quotient truncates towards zero. Where the sums and
  products fit into 64 bits, the three results are the integers the formulas denote.
\<close>

theorem timespan_formulas:
  fixes p :: "'net Params"
  shows
    "AveragingWindowTimespan p = PowAveragingWindow p * TargetTimePerBlock p \<and>
     MaxActualTimespan p
       = quo (AveragingWindowTimespan p * (100 + PowMaxAdjustDown p)) 100 \<and>
     MinActualTimespan p
       = quo (AveragingWindowTimespan p * (100 - PowMaxAdjustUp p)) 100 \<and>
     sint (MaxActualTimespan p)
       = sint (AveragingWindowTimespan p * (100 + PowMaxAdjustDown p)) sdiv 100 \<and>
     sint (MinActualTimespan p)
       = sint (AveragingWindowTimespan p * (100 - PowMaxAdjustUp p)) sdiv 100 \<and>
     (int64_range (sint (PowAveragingWindow p) * sint (TargetTimePerBlock p)) \<longrightarrow>
        sint (AveragingWindowTimespan p)
          = sint (PowAveragingWindow p) * sint (TargetTimePerBlock p)) \<and>
     (int64_range (sint (PowAveragingWindow p) * sint (TargetTimePerBlock p)) \<and>
      int64_range (100 + sint (PowMaxAdjustDown p)) \<and>
      int64_range (sint (PowAveragingWindow p) * sint (TargetTimePerBlock p)
                     * (100 + sint (PowMaxAdjustDown p))) \<longrightarrow>
        sint (MaxActualTimespan p)
          = (sint (PowAveragingWindow p) * sint (TargetTimePerBlock p)
               * (100 + sint (PowMaxAdjustDown p))) sdiv 100) \<and>
     (int64_range (sint (PowAveragingWindow p) * sint (TargetTimePerBlock p)) \<and>
      int64_range (100 - sint (PowMaxAdjustUp p)) \<and>
      int64_range (sint (PowAveragingWindow p) * sint (TargetTimePerBlock p)
                     * (100 - sint (PowMaxAdjustUp p))) \<longrightarrow>
        sint (MinActualTimespan p)
          = (sint (PowAveragingWindow p) * sint (TargetTimePerBlock p)
               * (100 - sint (PowMaxAdjustUp p))) sdiv 100)"
proof -
  have w: "AveragingWindowTimespan p = PowAveragingWindow p * TargetTimePerBlock p"
    "MaxActualTimespan p = quo (AveragingWindowTimespan p * (100 + PowMaxAdjustDown p)) 100"
    "MinActualTimespan p = quo (AveragingWindowTimespan p * (100 - PowMaxAdjustUp p)) 100"
    by (simp_all add: AveragingWindowTimespan_def MaxActualTimespan_def MinActualTimespan_def
        Let_def)
  have s: "sint (MaxActualTimespan p)
       = sint (AveragingWindowTimespan p * (100 + PowMaxAdjustDown p)) sdiv 100"
    "sint (MinActualTimespan p)
       = sint (AveragingWindowTimespan p * (100 - PowMaxAdjustUp p)) sdiv 100"
    by (simp_all only: w(2,3) sint_quo_100)
  show ?thesis
    using w s sint_AveragingWindowTimespan [of p] sint_MaxActualTimespan [of p]
      sint_MinActualTimespan [of p]
    by blast
qed

text \<open>An instance: the main network's record, where everything fits.\<close>

theorem timespan_formulas_witness:
  "int64_range (sint (PowAveragingWindow (MainNetParams (0xd9b4bef9 :: 32 word)))
      * sint (TargetTimePerBlock (MainNetParams (0xd9b4bef9 :: 32 word)))) \<and>
   int64_range (100 + sint (PowMaxAdjustDown (MainNetParams (0xd9b4bef9 :: 32 word)))) \<and>
   int64_range (sint (PowAveragingWindow (MainNetParams (0xd9b4bef9 :: 32 word)))
      * sint (TargetTimePerBlock (MainNetParams (0xd9b4bef9 :: 32 word)))
      * (100 + sint (PowMaxAdjustDown (MainNetParams (0xd9b4bef9 :: 32 word))))) \<and>
   int64_range (100 - sint (PowMaxAdjustUp (MainNetParams (0xd9b4bef9 :: 32 word)))) \<and>
   int64_range (sint (PowAveragingWindow (MainNetParams (0xd9b4bef9 :: 32 word)))
      * sint (TargetTimePerBlock (MainNetParams (0xd9b4bef9 :: 32 word)))
      * (100 - sint (PowMaxAdjustUp (MainNetParams (0xd9b4bef9 :: 32 word))))) \<and>
   sint (AveragingWindowTimespan (MainNetParams (0xd9b4bef9 :: 32 word))) = 1020000000000 \<and>
   sint (MaxActualTimespan (MainNetParams (0xd9b4bef9 :: 32 word))) = 1346400000000 \<and>
   sint (MinActualTimespan (MainNetParams (0xd9b4bef9 :: 32 word))) = 856800000000"
proof -
  let ?p = "MainNetParams (0xd9b4bef9 :: 32 word)"
  have r: "int64_range (sint (PowAveragingWindow ?p) * sint (TargetTimePerBlock ?p))"
    "int64_range (100 + sint (PowMaxAdjustDown ?p))"
    "int64_range (sint (PowAveragingWindow ?p) * sint (TargetTimePerBlock ?p)
      * (100 + sint (PowMaxAdjustDown ?p)))"
    "int64_range (100 - sint (PowMaxAdjustUp ?p))"
    "int64_range (sint (PowAveragingWindow ?p) * sint (TargetTimePerBlock ?p)
      * (100 - sint (PowMaxAdjustUp ?p)))"
    by (simp_all add: int64_range_def)
  from timespan_formulas [of ?p] r
  have "sint (AveragingWindowTimespan ?p)
          = sint (PowAveragingWindow ?p) * sint (TargetTimePerBlock ?p)"
    and "sint (MaxActualTimespan ?p)
          = (sint (PowAveragingWindow ?p) * sint (TargetTimePerBlock ?p)
               * (100 + sint (PowMaxAdjustDown ?p))) sdiv 100"
    and "sint (MinActualTimespan ?p)
          = (sint (PowAveragingWindow ?p) * sint (TargetTimePerBlock ?p)
               * (100 - sint (PowMaxAdjustUp ?p))) sdiv 100"
    by blast+
  then have v: "sint (AveragingWindowTimespan ?p) = 1020000000000"
    "sint (MaxActualTimespan ?p) = 1346400000000"
    "sint (MinActualTimespan ?p) = 856800000000"
    by (simp_all add: signed_divide_int_def)
  from r v show ?thesis by (intro conjI)
qed

text \<open>
  The order of the two operations shows in the result: with a window of 17 blocks of one
  nanosecond and 32 per cent, multiplying first gives 22 and dividing first gives 0.
\<close>

lemma multiply_before_divide_matters:
  "MaxActualTimespan ((MainNetParams (0xd9b4bef9 :: 32 word))\<lparr>TargetTimePerBlock := Nanosecond\<rparr>) = 22 \<and>
   divide_first_max ((MainNetParams (0xd9b4bef9 :: 32 word))\<lparr>TargetTimePerBlock := Nanosecond\<rparr>) = 0"
  by (simp add: MaxActualTimespan_def divide_first_max_def AveragingWindowTimespan_def
      quo_def signed_divide_int_def Nanosecond_def)

subsection \<open>The main network's band\<close>

text \<open>
  C5. With the main network's values (a window of 17 blocks, 60 seconds per block, 32 per
  cent down, 16 per cent up) the expected timespan is 1020 seconds, the upper bound is
  1346.4 seconds and the lower bound is 856.8 seconds: a duration counts nanoseconds, so
  the division by 100 truncates nanoseconds and cuts nothing off here.
\<close>

theorem mainnet_timespans:
  "PowAveragingWindow (MainNetParams n) = 17 \<and>
   TargetTimePerBlock (MainNetParams n) = 60 * Second \<and>
   PowMaxAdjustDown (MainNetParams n) = 32 \<and>
   PowMaxAdjustUp (MainNetParams n) = 16 \<and>
   AveragingWindowTimespan (MainNetParams n) = 1020 * Second \<and>
   MaxActualTimespan (MainNetParams n) = 1346 * Second + 400 * Millisecond \<and>
   MinActualTimespan (MainNetParams n) = 856 * Second + 800 * Millisecond"
  by (simp add: AveragingWindowTimespan_def MaxActualTimespan_def
      MinActualTimespan_def quo_def signed_divide_int_def
      Second_def Millisecond_def Microsecond_def Nanosecond_def)

text \<open>The two bounds are not the whole numbers of seconds 1346 and 856.\<close>

theorem mainnet_timespans_not_whole_seconds:
  "MaxActualTimespan (MainNetParams (0xd9b4bef9 :: 32 word)) \<noteq> 1346 * Second \<and>
   MinActualTimespan (MainNetParams (0xd9b4bef9 :: 32 word)) \<noteq> 856 * Second"
  by (simp add: AveragingWindowTimespan_def MaxActualTimespan_def
      MinActualTimespan_def quo_def signed_divide_int_def
      Second_def Millisecond_def Microsecond_def Nanosecond_def)

subsection \<open>The order of the band\<close>

text \<open>
  C10. For a record with a window, a target time per block and a downward percentage that
  are not negative, an upward percentage between 0 and 100, and whose product
  \<open>window * target time * (100 + downward percentage)\<close> fits into a signed 64-bit integer:
  \<open>MinActualTimespan \<le> AveragingWindowTimespan \<le> MaxActualTimespan\<close>, read as signed
  values.
\<close>

theorem dampening_band_ordered:
  fixes p :: "'net Params"
  assumes W: "0 \<le> sint (PowAveragingWindow p)"
    and T: "0 \<le> sint (TargetTimePerBlock p)"
    and D: "0 \<le> sint (PowMaxAdjustDown p)"
    and U: "0 \<le> sint (PowMaxAdjustUp p)" "sint (PowMaxAdjustUp p) \<le> 100"
    and fits: "sint (PowAveragingWindow p) * sint (TargetTimePerBlock p)
                 * (100 + sint (PowMaxAdjustDown p)) < 2 ^ 63"
  shows "sint (MinActualTimespan p) \<le> sint (AveragingWindowTimespan p) \<and>
         sint (AveragingWindowTimespan p) \<le> sint (MaxActualTimespan p)"
proof -
  define A where "A = sint (PowAveragingWindow p) * sint (TargetTimePerBlock p)"
  define d where "d = sint (PowMaxAdjustDown p)"
  define u where "u = sint (PowMaxAdjustUp p)"
  have A0: "0 \<le> A" unfolding A_def using W T by simp
  have d0: "0 \<le> d" and u0: "0 \<le> u" and u100: "u \<le> 100"
    unfolding d_def u_def using D U by simp_all
  have fits': "A * (100 + d) < 2 ^ 63"
    using fits unfolding A_def d_def .
  have A100: "A * 100 \<le> A * (100 + d)"
    using A0 d0 by (intro mult_left_mono) simp_all
  have AA: "A \<le> A * 100" using A0 by simp
  have rA: "int64_range A"
    unfolding int64_range_def using A0 AA A100 fits' by linarith
  have avg: "sint (AveragingWindowTimespan p) = A"
    unfolding A_def by (rule sint_AveragingWindowTimespan) (use rA in \<open>simp add: A_def\<close>)
  have "sint (MinActualTimespan p) \<le> A"
  proof -
    have lo: "0 \<le> A * (100 - u)" using A0 u100 by simp
    have hi: "A * (100 - u) \<le> A * 100"
      using A0 u0 by (intro mult_left_mono) simp_all
    have r1: "int64_range (100 - u)"
      unfolding int64_range_def using u0 u100 by simp
    have r2: "int64_range (A * (100 - u))"
      unfolding int64_range_def using lo hi A100 fits' by linarith
    have "sint (MinActualTimespan p) = (A * (100 - u)) sdiv 100"
      unfolding A_def u_def
      by (rule sint_MinActualTimespan) (use rA r1 r2 in \<open>simp_all add: A_def u_def\<close>)
    also have "\<dots> = (A * (100 - u)) div 100"
      using lo by (rule sdiv_100_nonneg)
    also have "\<dots> \<le> A"
      using hi by linarith
    finally show ?thesis .
  qed
  moreover have "A \<le> sint (MaxActualTimespan p)"
  proof (cases "A = 0")
    case True
    with avg have "AveragingWindowTimespan p = 0"
      by (simp add: sint_eq_0_D)
    then have "sint (MaxActualTimespan p) = 0"
      by (simp add: MaxActualTimespan_def Let_def sint_quo_100)
    with True show ?thesis by simp
  next
    case False
    with A0 have A1: "1 \<le> A" by simp
    have "(100 + d) * 1 \<le> (100 + d) * A"
      using A1 d0 by (intro mult_left_mono) simp_all
    then have "100 + d \<le> A * (100 + d)"
      by (simp add: mult.commute)
    then have r1: "int64_range (100 + d)"
      unfolding int64_range_def using d0 fits' by linarith
    have r2: "int64_range (A * (100 + d))"
      unfolding int64_range_def using A0 A100 fits' by linarith
    have "sint (MaxActualTimespan p) = (A * (100 + d)) sdiv 100"
      unfolding A_def d_def
      by (rule sint_MaxActualTimespan) (use rA r1 r2 in \<open>simp_all add: A_def d_def\<close>)
    also have "\<dots> = (A * (100 + d)) div 100"
      using A0 A100 by (intro sdiv_100_nonneg) linarith
    finally show ?thesis
      using A100 by linarith
  qed
  ultimately show ?thesis
    by (simp add: avg)
qed

text \<open>
  Without the bound on the product the order fails: with a window of one block of
  \<open>2 ^ 62\<close> nanoseconds and the main network's percentages, the product with 132 wraps
  around to 0, so the upper bound is 0 and lies below the expected timespan.
\<close>

theorem band_order_fails_on_overflow:
  "0 \<le> sint (PowAveragingWindow
       ((MainNetParams (0xd9b4bef9 :: 32 word))
          \<lparr>TargetTimePerBlock := 4611686018427387904, PowAveragingWindow := 1\<rparr>)) \<and>
   0 \<le> sint (TargetTimePerBlock
       ((MainNetParams (0xd9b4bef9 :: 32 word))
          \<lparr>TargetTimePerBlock := 4611686018427387904, PowAveragingWindow := 1\<rparr>)) \<and>
   0 \<le> sint (PowMaxAdjustDown
       ((MainNetParams (0xd9b4bef9 :: 32 word))
          \<lparr>TargetTimePerBlock := 4611686018427387904, PowAveragingWindow := 1\<rparr>)) \<and>
   0 \<le> sint (PowMaxAdjustUp
       ((MainNetParams (0xd9b4bef9 :: 32 word))
          \<lparr>TargetTimePerBlock := 4611686018427387904, PowAveragingWindow := 1\<rparr>)) \<and>
   sint (PowMaxAdjustUp
       ((MainNetParams (0xd9b4bef9 :: 32 word))
          \<lparr>TargetTimePerBlock := 4611686018427387904, PowAveragingWindow := 1\<rparr>)) \<le> 100 \<and>
   sint (AveragingWindowTimespan
       ((MainNetParams (0xd9b4bef9 :: 32 word))
          \<lparr>TargetTimePerBlock := 4611686018427387904, PowAveragingWindow := 1\<rparr>))
     = 4611686018427387904 \<and>
   sint (MaxActualTimespan
       ((MainNetParams (0xd9b4bef9 :: 32 word))
          \<lparr>TargetTimePerBlock := 4611686018427387904, PowAveragingWindow := 1\<rparr>)) = 0 \<and>
   \<not> (sint (AveragingWindowTimespan
       ((MainNetParams (0xd9b4bef9 :: 32 word))
          \<lparr>TargetTimePerBlock := 4611686018427387904, PowAveragingWindow := 1\<rparr>))
      \<le> sint (MaxActualTimespan
       ((MainNetParams (0xd9b4bef9 :: 32 word))
          \<lparr>TargetTimePerBlock := 4611686018427387904, PowAveragingWindow := 1\<rparr>)))"
  by (simp add: MaxActualTimespan_def AveragingWindowTimespan_def quo_def signed_divide_int_def)

text \<open>An instance of the theorem: the main network's record.\<close>

theorem dampening_band_ordered_witness:
  "0 \<le> sint (PowAveragingWindow (MainNetParams (0xd9b4bef9 :: 32 word))) \<and>
   0 \<le> sint (TargetTimePerBlock (MainNetParams (0xd9b4bef9 :: 32 word))) \<and>
   0 \<le> sint (PowMaxAdjustDown (MainNetParams (0xd9b4bef9 :: 32 word))) \<and>
   0 \<le> sint (PowMaxAdjustUp (MainNetParams (0xd9b4bef9 :: 32 word))) \<and>
   sint (PowMaxAdjustUp (MainNetParams (0xd9b4bef9 :: 32 word))) \<le> 100 \<and>
   sint (PowAveragingWindow (MainNetParams (0xd9b4bef9 :: 32 word)))
     * sint (TargetTimePerBlock (MainNetParams (0xd9b4bef9 :: 32 word)))
     * (100 + sint (PowMaxAdjustDown (MainNetParams (0xd9b4bef9 :: 32 word)))) < 2 ^ 63 \<and>
   sint (MinActualTimespan (MainNetParams (0xd9b4bef9 :: 32 word)))
     \<le> sint (AveragingWindowTimespan (MainNetParams (0xd9b4bef9 :: 32 word))) \<and>
   sint (AveragingWindowTimespan (MainNetParams (0xd9b4bef9 :: 32 word)))
     \<le> sint (MaxActualTimespan (MainNetParams (0xd9b4bef9 :: 32 word)))"
proof -
  let ?p = "MainNetParams (0xd9b4bef9 :: 32 word)"
  have h: "0 \<le> sint (PowAveragingWindow ?p)" "0 \<le> sint (TargetTimePerBlock ?p)"
    "0 \<le> sint (PowMaxAdjustDown ?p)" "0 \<le> sint (PowMaxAdjustUp ?p)"
    "sint (PowMaxAdjustUp ?p) \<le> 100"
    "sint (PowAveragingWindow ?p) * sint (TargetTimePerBlock ?p)
       * (100 + sint (PowMaxAdjustDown ?p)) < 2 ^ 63"
    by simp_all
  from dampening_band_ordered [OF h] h show ?thesis by (intro conjI) blast+
qed

end
